theory Spec2Isabelle
  imports
    Main
    "HOL-Library.AList"
    "HOL-Library.Char_ord"
    "HOL-Library.List_Lexorder"
    "HOL-Library.Product_Lexorder"
begin

section \<open>Announcements endpoints of the High School Management System API\<close>

text \<open>
  The module \<^verbatim>\<open>src/backend/routers/announcements.py\<close> holds five request handlers over two
  MongoDB collections. The handlers are embedded as functions that take the request's
  environment (the clock and the identifier generator), the database and the arguments,
  and return the response together with the database afterwards. What the handlers call
  in the standard library (\<^verbatim>\<open>datetime\<close>), in \<^verbatim>\<open>bson\<close> and in \<^verbatim>\<open>pymongo\<close> is modelled first,
  as far as the handlers use it.
\<close>

subsection \<open>Calendar dates and \<^verbatim>\<open>datetime.fromisoformat\<close>\<close>

text \<open>
  A \<^verbatim>\<open>date\<close> is the triple (year, month, day); Python compares dates lexicographically on
  the three fields, which is the order of the product type here.
\<close>

type_synonym date = "int \<times> int \<times> int"

record datetime =
  dt_date :: date
  dt_time :: "int \<times> int \<times> int \<times> int"
  dt_utcoffset :: "(bool \<times> int \<times> int \<times> int \<times> int) option"

definition is_ascii_digit :: "char \<Rightarrow> bool" where
  "is_ascii_digit c \<longleftrightarrow> c \<in> set ''0123456789''"

definition digit_value :: "char \<Rightarrow> int" where
  "digit_value c = of_char c - 48"

definition parse_digits :: "string \<Rightarrow> int option" where
  "parse_digits s =
     (if list_all is_ascii_digit s
      then Some (foldl (\<lambda>n c. 10 * n + digit_value c) 0 s)
      else None)"

definition is_leap :: "int \<Rightarrow> bool" where
  "is_leap y \<longleftrightarrow> y mod 4 = 0 \<and> (y mod 100 \<noteq> 0 \<or> y mod 400 = 0)"

definition days_in_month :: "int \<Rightarrow> int \<Rightarrow> int" where
  "days_in_month y m =
     (if m = 2 then (if is_leap y then 29 else 28)
      else if m = 4 \<or> m = 6 \<or> m = 9 \<or> m = 11 then 30
      else 31)"

text \<open>The range checks of the \<^verbatim>\<open>datetime\<close> constructor (a failure is a \<^verbatim>\<open>ValueError\<close>).\<close>

definition check_date_fields :: "date \<Rightarrow> bool" where
  "check_date_fields d =
     (case d of (y, m, dd) \<Rightarrow>
        1 \<le> y \<and> y \<le> 9999 \<and> 1 \<le> m \<and> m \<le> 12 \<and> 1 \<le> dd \<and> dd \<le> days_in_month y m)"

definition check_time_fields :: "int \<times> int \<times> int \<times> int \<Rightarrow> bool" where
  "check_time_fields t =
     (case t of (h, m, s, us) \<Rightarrow>
        0 \<le> h \<and> h < 24 \<and> 0 \<le> m \<and> m < 60 \<and> 0 \<le> s \<and> s < 60 \<and> 0 \<le> us \<and> us < 1000000)"

text \<open>A UTC offset has to be strictly shorter than 24 hours.\<close>

definition check_utcoffset :: "int \<times> int \<times> int \<times> int \<Rightarrow> bool" where
  "check_utcoffset t =
     (case t of (h, m, s, us) \<Rightarrow>
        (h * 3600 + m * 60 + s) * 1000000 + us < 86400 * 1000000)"

text \<open>The date part: exactly \<^verbatim>\<open>YYYY-MM-DD\<close>.\<close>

fun parse_isoformat_date :: "string \<Rightarrow> date option" where
  "parse_isoformat_date [y1, y2, y3, y4, s1, m1, m2, s2, d1, d2] =
     (if s1 = CHR ''-'' \<and> s2 = CHR ''-'' then
        (case (parse_digits [y1, y2, y3, y4], parse_digits [m1, m2], parse_digits [d1, d2]) of
           (Some y, Some m, Some d) \<Rightarrow> Some (y, m, d)
         | _ \<Rightarrow> None)
      else None)"
| "parse_isoformat_date _ = None"

text \<open>
  A time or an offset: \<^verbatim>\<open>HH\<close>, \<^verbatim>\<open>HH:MM\<close>, \<^verbatim>\<open>HH:MM:SS\<close>, \<^verbatim>\<open>HH:MM:SS.fff\<close> or
  \<^verbatim>\<open>HH:MM:SS.ffffff\<close>.
\<close>

definition parse_hh_mm_ss_ff :: "string \<Rightarrow> (int \<times> int \<times> int \<times> int) option" where
  "parse_hh_mm_ss_ff s =
     (let n = length s in
      if n = 2 then
        (case parse_digits s of Some h \<Rightarrow> Some (h, 0, 0, 0) | None \<Rightarrow> None)
      else if n = 5 \<and> s ! 2 = CHR '':'' then
        (case (parse_digits (take 2 s), parse_digits (drop 3 s)) of
           (Some h, Some m) \<Rightarrow> Some (h, m, 0, 0)
         | _ \<Rightarrow> None)
      else if n = 8 \<and> s ! 2 = CHR '':'' \<and> s ! 5 = CHR '':'' then
        (case (parse_digits (take 2 s), parse_digits (take 2 (drop 3 s)),
               parse_digits (drop 6 s)) of
           (Some h, Some m, Some sec) \<Rightarrow> Some (h, m, sec, 0)
         | _ \<Rightarrow> None)
      else if (n = 12 \<or> n = 15) \<and> s ! 2 = CHR '':'' \<and> s ! 5 = CHR '':'' \<and> s ! 8 = CHR ''.'' then
        (case (parse_digits (take 2 s), parse_digits (take 2 (drop 3 s)),
               parse_digits (take 2 (drop 6 s)), parse_digits (drop 9 s)) of
           (Some h, Some m, Some sec, Some f) \<Rightarrow>
             Some (h, m, sec, if n = 12 then f * 1000 else f)
         | _ \<Rightarrow> None)
      else None)"

text \<open>
  The time part, with an optional offset \<^verbatim>\<open>+HH:MM\<close>, \<^verbatim>\<open>+HH:MM:SS\<close> or
  \<^verbatim>\<open>+HH:MM:SS.ffffff\<close> (sign \<^verbatim>\<open>+\<close> or \<^verbatim>\<open>-\<close>) after it.
\<close>

definition parse_isoformat_time ::
  "string \<Rightarrow> ((int \<times> int \<times> int \<times> int) \<times> (bool \<times> int \<times> int \<times> int \<times> int) option) option" where
  "parse_isoformat_time tstr =
     (let no_sign = (\<lambda>c. c \<noteq> CHR ''+'' \<and> c \<noteq> CHR ''-'');
          timestr = takeWhile no_sign tstr;
          rest = dropWhile no_sign tstr
      in case parse_hh_mm_ss_ff timestr of
           None \<Rightarrow> None
         | Some t \<Rightarrow>
             (case rest of
                [] \<Rightarrow> Some (t, None)
              | sign # tzstr \<Rightarrow>
                  if length tzstr = 5 \<or> length tzstr = 8 \<or> length tzstr = 15 then
                    (case parse_hh_mm_ss_ff tzstr of
                       None \<Rightarrow> None
                     | Some tz \<Rightarrow> Some (t, Some (sign = CHR ''-'', tz)))
                  else None))"

text \<open>
  The separator between date and time is any single character; in a UTF-8 string a
  character beyond ASCII takes two to four bytes, told by its first byte.
\<close>

definition separator_width :: "char \<Rightarrow> nat" where
  "separator_width c =
     (let b = (of_char c :: nat) in
      if b < 128 then 1 else if b div 16 = 14 then 3 else if b div 16 = 15 then 4 else 2)"

text \<open>
  \<^verbatim>\<open>datetime.fromisoformat\<close>, with \<^verbatim>\<open>None\<close> for a \<^verbatim>\<open>ValueError\<close>. The strings accepted
  are those of the grammar
  \<^verbatim>\<open>YYYY-MM-DD[*HH[:MM[:SS[.fff[fff]]]][+HH:MM[:SS[.ffffff]]]]\<close>
  that Python documents from version 3.7 on, with the constructor's range checks.
  Python 3.11 and later read further ISO 8601 forms as well (no dashes, week dates, a
  trailing \<^verbatim>\<open>Z\<close>); the handlers treat every accepted string alike, and the general results
  below hold for every string, whichever way it is read.
\<close>

definition fromisoformat :: "string \<Rightarrow> datetime option" where
  "fromisoformat date_string =
     (case parse_isoformat_date (take 10 date_string) of
        None \<Rightarrow> None
      | Some d \<Rightarrow>
          (case (if length date_string \<le> 10 then Some ((0, 0, 0, 0), None)
                 else parse_isoformat_time
                        (drop (10 + separator_width (date_string ! 10)) date_string)) of
             None \<Rightarrow> None
           | Some (t, tz) \<Rightarrow>
               if check_date_fields d \<and> check_time_fields t \<and>
                  (case tz of None \<Rightarrow> True | Some (neg, off) \<Rightarrow> check_utcoffset off)
               then Some \<lparr>dt_date = d, dt_time = t, dt_utcoffset = tz\<rparr>
               else None))"

text \<open>\<^verbatim>\<open>datetime.date()\<close>\<close>

definition date_of :: "datetime \<Rightarrow> date" where
  "date_of dt = dt_date dt"

text \<open>
  \<^verbatim>\<open>date.isoformat()\<close>, that is \<^verbatim>\<open>"%04d-%02d-%02d"\<close>, for the years 1 to 9999 a
  \<^verbatim>\<open>date\<close> can hold.
\<close>

definition digit_char :: "int \<Rightarrow> char" where
  "digit_char n = ''0123456789'' ! nat (n mod 10)"

definition isoformat :: "date \<Rightarrow> string" where
  "isoformat d =
     (case d of (y, m, dd) \<Rightarrow>
        [digit_char (y div 1000), digit_char (y div 100), digit_char (y div 10), digit_char y,
         CHR ''-'', digit_char (m div 10), digit_char m,
         CHR ''-'', digit_char (dd div 10), digit_char dd])"

subsection \<open>BSON values and \<^verbatim>\<open>bson.ObjectId\<close>\<close>

text \<open>
  The values the handlers store and read: Python's \<^verbatim>\<open>None\<close> (BSON null), strings, and
  object identifiers (a byte string, twelve bytes when the driver generates it).
\<close>

datatype bson = BNull | BString string | BObjectId "nat list"

definition is_space :: "char \<Rightarrow> bool" where
  "is_space c \<longleftrightarrow> (of_char c :: nat) = 32 \<or> (9 \<le> (of_char c :: nat) \<and> (of_char c :: nat) \<le> 13)"

definition hex_value :: "char \<Rightarrow> nat option" where
  "hex_value c =
     (let b = (of_char c :: nat) in
      if 48 \<le> b \<and> b \<le> 57 then Some (b - 48)
      else if 97 \<le> b \<and> b \<le> 102 then Some (b - 87)
      else if 65 \<le> b \<and> b \<le> 70 then Some (b - 55)
      else None)"

text \<open>
  \<^verbatim>\<open>bytes.fromhex\<close>: two hexadecimal digits per byte, ASCII whitespace between the bytes
  skipped; \<^verbatim>\<open>None\<close> for its \<^verbatim>\<open>ValueError\<close>.
\<close>

fun fromhex :: "string \<Rightarrow> nat list option" where
  "fromhex [] = Some []"
| "fromhex [c] = (if is_space c then Some [] else None)"
| "fromhex (c # c' # cs) =
     (if is_space c then fromhex (c' # cs)
      else (case (hex_value c, hex_value c') of
              (Some hi, Some lo) \<Rightarrow>
                (case fromhex cs of Some bs \<Rightarrow> Some ((16 * hi + lo) # bs) | None \<Rightarrow> None)
            | _ \<Rightarrow> None))"

text \<open>
  \<^verbatim>\<open>ObjectId(oid)\<close> for a string: it has to be 24 characters long and go through
  \<^verbatim>\<open>bytes.fromhex\<close>; anything else raises \<^verbatim>\<open>InvalidId\<close>, here \<^verbatim>\<open>None\<close>.
\<close>

definition ObjectId :: "string \<Rightarrow> nat list option" where
  "ObjectId oid = (if length oid = 24 then fromhex oid else None)"

definition hexlify :: "nat list \<Rightarrow> string" where
  "hexlify bs = concat (map (\<lambda>b. [''0123456789abcdef'' ! (b div 16 mod 16),
                                   ''0123456789abcdef'' ! (b mod 16)]) bs)"

text \<open>Python's \<^verbatim>\<open>str\<close> on the three kinds of value.\<close>

fun str :: "bson \<Rightarrow> string" where
  "str BNull = ''None''"
| "str (BString s) = s"
| "str (BObjectId bs) = hexlify bs"

text \<open>
  MongoDB's order on values: first by kind (null before strings before object
  identifiers), then strings and object identifiers byte by byte.
\<close>

fun canonical_type :: "bson \<Rightarrow> nat" where
  "canonical_type BNull = 0"
| "canonical_type (BString s) = 1"
| "canonical_type (BObjectId bs) = 2"

fun bson_le :: "bson \<Rightarrow> bson \<Rightarrow> bool" where
  "bson_le (BString s) (BString t) = (s \<le> t)"
| "bson_le (BObjectId a) (BObjectId b) = (a \<le> b)"
| "bson_le v w = (canonical_type v \<le> canonical_type w)"

subsection \<open>Collections and the driver's operations\<close>

text \<open>
  A document is its fields in order. A collection holds its documents in insertion
  order, each as its \<^verbatim>\<open>_id\<close> and its other fields: MongoDB stores no document without an
  \<^verbatim>\<open>_id\<close>.
\<close>

type_synonym document = "(string \<times> bson) list"

type_synonym collection = "(bson \<times> document) list"

definition doc_of :: "bson \<times> document \<Rightarrow> document" where
  "doc_of r = (''_id'', fst r) # snd r"

text \<open>Reading a field for a comparison: a missing field counts as null.\<close>

definition field_value :: "document \<Rightarrow> string \<Rightarrow> bson" where
  "field_value d f = (case map_of d f of None \<Rightarrow> BNull | Some v \<Rightarrow> v)"

text \<open>
  The filters the handlers use. A dictionary with several keys is the conjunction of its
  entries (\<open>And\<close>), one with no key matches every document. \<^verbatim>\<open>$exists\<close> asks whether the
  document has the field, whatever its value (null included). \<^verbatim>\<open>$lte\<close> and \<^verbatim>\<open>$gte\<close>
  compare only values of the operand's own kind.
\<close>

datatype cond = Exists bool | Lte bson | Gte bson

datatype query = Field string cond | Eq string bson | Or "query list" | And "query list"

fun matches :: "query \<Rightarrow> document \<Rightarrow> bool" where
  "matches (Field f (Exists b)) d = ((map_of d f \<noteq> None) = b)"
| "matches (Field f (Lte v)) d =
     (canonical_type (field_value d f) = canonical_type v \<and> bson_le (field_value d f) v)"
| "matches (Field f (Gte v)) d =
     (canonical_type (field_value d f) = canonical_type v \<and> bson_le v (field_value d f))"
| "matches (Eq f v) d = (field_value d f = v)"
| "matches (Or qs) d = list_ex (\<lambda>q. matches q d) qs"
| "matches (And qs) d = list_all (\<lambda>q. matches q d) qs"

text \<open>\<^verbatim>\<open>collection.find(filter)\<close>, in the collection's order.\<close>

definition find_coll :: "query \<Rightarrow> collection \<Rightarrow> (bson \<times> document) list" where
  "find_coll q c = filter (\<lambda>r. matches q (doc_of r)) c"

text \<open>
  \<^verbatim>\<open>cursor.sort(key, -1)\<close>: descending on the field. MongoDB leaves the order of documents
  with equal keys open; here they keep their order.
\<close>

fun insert_desc :: "string \<Rightarrow> bson \<times> document \<Rightarrow> (bson \<times> document) list \<Rightarrow> (bson \<times> document) list" where
  "insert_desc k r [] = [r]"
| "insert_desc k r (x # xs) =
     (if bson_le (field_value (doc_of x) k) (field_value (doc_of r) k)
      then r # x # xs
      else x # insert_desc k r xs)"

definition sort_desc :: "string \<Rightarrow> (bson \<times> document) list \<Rightarrow> (bson \<times> document) list" where
  "sort_desc k rs = foldr (insert_desc k) rs []"

text \<open>\<^verbatim>\<open>collection.find_one(filter)\<close>\<close>

definition find_one :: "query \<Rightarrow> collection \<Rightarrow> (bson \<times> document) option" where
  "find_one q c = (case find_coll q c of [] \<Rightarrow> None | r # _ \<Rightarrow> Some r)"

text \<open>
  Everything a handler can raise: the \<^verbatim>\<open>HTTPException\<close>s it raises itself, with status code
  and detail, the driver's error for a second document under an \<^verbatim>\<open>_id\<close> in use, and the
  \<^verbatim>\<open>TypeError\<close> of subscripting \<^verbatim>\<open>None\<close>.
\<close>

datatype exn = HTTPException nat string | DuplicateKeyError | TypeError

text \<open>
  \<^verbatim>\<open>collection.insert_one(document)\<close>: the driver gives the document the new identifier
  and the server appends it. The result is the inserted identifier and the collection.
\<close>

definition insert_one ::
  "nat list \<Rightarrow> document \<Rightarrow> collection \<Rightarrow> exn + (bson \<times> collection)" where
  "insert_one new_id d c =
     (if BObjectId new_id \<in> set (map fst c) then Inl DuplicateKeyError
      else Inr (BObjectId new_id, c @ [(BObjectId new_id, d)]))"

text \<open>\<^verbatim>\<open>$set\<close>: each field is overwritten in place, or appended when the document lacks it.\<close>

definition set_fields :: "document \<Rightarrow> bson \<times> document \<Rightarrow> bson \<times> document" where
  "set_fields upd r = (fst r, foldl (\<lambda>d (k, v). AList.update k v d) (snd r) upd)"

text \<open>
  \<^verbatim>\<open>collection.update_one(filter, {"$set": update})\<close>: the first matching document is
  updated; the result is \<^verbatim>\<open>matched_count\<close> and the collection.
\<close>

fun update_one :: "query \<Rightarrow> document \<Rightarrow> collection \<Rightarrow> nat \<times> collection" where
  "update_one q upd [] = (0, [])"
| "update_one q upd (r # c) =
     (if matches q (doc_of r) then (1, set_fields upd r # c)
      else (case update_one q upd c of (n, c') \<Rightarrow> (n, r # c')))"

text \<open>
  \<^verbatim>\<open>collection.delete_one(filter)\<close>: the first matching document is removed; the result is
  \<^verbatim>\<open>deleted_count\<close> and the collection.
\<close>

fun delete_one :: "query \<Rightarrow> collection \<Rightarrow> nat \<times> collection" where
  "delete_one q [] = (0, [])"
| "delete_one q (r # c) =
     (if matches q (doc_of r) then (1, c)
      else (case delete_one q c of (n, c') \<Rightarrow> (n, r # c')))"

subsection \<open>The request handlers\<close>

record database =
  announcements_collection :: collection
  teachers_collection :: collection

text \<open>
  What a request reads from outside: \<^verbatim>\<open>date.today()\<close>, the string
  \<^verbatim>\<open>datetime.utcnow().isoformat()\<close>, and the identifier the driver generates for an insert.
\<close>

record env =
  today :: date
  utcnow_isoformat :: string
  new_object_id :: "nat list"

text \<open>\<^verbatim>\<open>announcement["_id"] = str(announcement["_id"])\<close>\<close>

definition stringify_id :: "bson \<times> document \<Rightarrow> document" where
  "stringify_id r = AList.update ''_id'' (BString (str (fst r))) (doc_of r)"

definition get_active_announcements :: "env \<Rightarrow> database \<Rightarrow> document list" where
  "get_active_announcements e db =
     (let today = isoformat (today e);
          announcements =
            sort_desc ''created_at''
              (find_coll
                 (And [Or [Field ''start_date'' (Exists False),
                           Field ''start_date'' (Lte (BString today))],
                       Field ''expiration_date'' (Gte (BString today))])
                 (announcements_collection db))
      in map stringify_id announcements)"

text \<open>
  The two checks every other handler starts with: \<^verbatim>\<open>if not username\<close> (no user name, or an
  empty one), then the lookup in the teachers collection. The result is the exception
  raised, if any.
\<close>

definition authenticate :: "database \<Rightarrow> string option \<Rightarrow> exn option" where
  "authenticate db username =
     (case username of
        None \<Rightarrow> Some (HTTPException 401 ''Authentication required'')
      | Some u \<Rightarrow>
          if u = [] then Some (HTTPException 401 ''Authentication required'')
          else if find_one (Eq ''_id'' (BString u)) (teachers_collection db) = None
          then Some (HTTPException 401 ''Invalid user'')
          else None)"

definition get_all_announcements :: "database \<Rightarrow> string option \<Rightarrow> exn + document list" where
  "get_all_announcements db username =
     (case authenticate db username of
        Some err \<Rightarrow> Inl err
      | None \<Rightarrow>
          (let announcements =
                 sort_desc ''created_at'' (find_coll (And []) (announcements_collection db))
           in Inr (map stringify_id announcements)))"

text \<open>
  The block \<^verbatim>\<open># Validate dates\<close> of \<^verbatim>\<open>create_announcement\<close> and \<^verbatim>\<open>update_announcement\<close>,
  the same in both: a \<^verbatim>\<open>ValueError\<close> of the parser becomes the 400 \<^verbatim>\<open>Invalid date format\<close>,
  and \<^verbatim>\<open>if start_date\<close> skips a start date that is \<^verbatim>\<open>None\<close> or empty.
\<close>

definition validate_dates :: "string \<Rightarrow> string option \<Rightarrow> exn option" where
  "validate_dates expiration_date start_date =
     (case fromisoformat expiration_date of
        None \<Rightarrow> Some (HTTPException 400 ''Invalid date format'')
      | Some exp_dt \<Rightarrow>
          (case start_date of
             None \<Rightarrow> None
           | Some s \<Rightarrow>
               if s = [] then None
               else (case fromisoformat s of
                       None \<Rightarrow> Some (HTTPException 400 ''Invalid date format'')
                     | Some st_dt \<Rightarrow>
                         if date_of st_dt > date_of exp_dt
                         then Some (HTTPException 400 ''Start date must be before expiration date'')
                         else None)))"

text \<open>An optional string as a stored value: \<^verbatim>\<open>None\<close> is stored as null.\<close>

definition opt_string :: "string option \<Rightarrow> bson" where
  "opt_string s = (case s of None \<Rightarrow> BNull | Some t \<Rightarrow> BString t)"

definition create_announcement ::
  "env \<Rightarrow> database \<Rightarrow> string \<Rightarrow> string \<Rightarrow> string option \<Rightarrow> string option
     \<Rightarrow> (exn + document) \<times> database" where
  "create_announcement e db message expiration_date username start_date =
     (case authenticate db username of
        Some err \<Rightarrow> (Inl err, db)
      | None \<Rightarrow>
          (case validate_dates expiration_date start_date of
             Some err \<Rightarrow> (Inl err, db)
           | None \<Rightarrow>
               (let announcement =
                      [(''message'', BString message),
                       (''start_date'', opt_string start_date),
                       (''expiration_date'', BString expiration_date),
                       (''created_by'', opt_string username),
                       (''created_at'', BString (utcnow_isoformat e))]
                in case insert_one (new_object_id e) announcement (announcements_collection db) of
                     Inl err \<Rightarrow> (Inl err, db)
                   | Inr (inserted_id, c) \<Rightarrow>
                       (Inr (announcement @ [(''_id'', BString (str inserted_id))]),
                        db\<lparr>announcements_collection := c\<rparr>))))"

definition update_announcement ::
  "env \<Rightarrow> database \<Rightarrow> string \<Rightarrow> string \<Rightarrow> string \<Rightarrow> string option \<Rightarrow> string option
     \<Rightarrow> (exn + document) \<times> database" where
  "update_announcement e db announcement_id message expiration_date username start_date =
     (case authenticate db username of
        Some err \<Rightarrow> (Inl err, db)
      | None \<Rightarrow>
          (case validate_dates expiration_date start_date of
             Some err \<Rightarrow> (Inl err, db)
           | None \<Rightarrow>
               (case ObjectId announcement_id of
                  None \<Rightarrow> (Inl (HTTPException 400 ''Invalid announcement ID''), db)
                | Some obj_id \<Rightarrow>
                    (let update_data =
                           [(''message'', BString message),
                            (''start_date'', opt_string start_date),
                            (''expiration_date'', BString expiration_date),
                            (''updated_by'', opt_string username),
                            (''updated_at'', BString (utcnow_isoformat e))]
                     in case update_one (Eq ''_id'' (BObjectId obj_id)) update_data
                               (announcements_collection db) of
                          (matched_count, c) \<Rightarrow>
                            if matched_count = 0
                            then (Inl (HTTPException 404 ''Announcement not found''), db)
                            else (case find_one (Eq ''_id'' (BObjectId obj_id)) c of
                                    None \<Rightarrow> (Inl TypeError, db\<lparr>announcements_collection := c\<rparr>)
                                  | Some announcement \<Rightarrow>
                                      (Inr (stringify_id announcement),
                                       db\<lparr>announcements_collection := c\<rparr>))))))"

definition delete_announcement ::
  "database \<Rightarrow> string \<Rightarrow> string option \<Rightarrow> (exn + document) \<times> database" where
  "delete_announcement db announcement_id username =
     (case authenticate db username of
        Some err \<Rightarrow> (Inl err, db)
      | None \<Rightarrow>
          (case ObjectId announcement_id of
             None \<Rightarrow> (Inl (HTTPException 400 ''Invalid announcement ID''), db)
           | Some obj_id \<Rightarrow>
               (case delete_one (Eq ''_id'' (BObjectId obj_id)) (announcements_collection db) of
                  (deleted_count, c) \<Rightarrow>
                    if deleted_count = 0
                    then (Inl (HTTPException 404 ''Announcement not found''), db)
                    else (Inr [(''message'', BString ''Announcement deleted successfully'')],
                          db\<lparr>announcements_collection := c\<rparr>))))"

subsection \<open>Notions the properties are stated in\<close>

text \<open>A caller is known when the teachers collection has a document under the user name.\<close>

definition known_user :: "database \<Rightarrow> string \<Rightarrow> bool" where
  "known_user db u \<longleftrightarrow> BString u \<in> set (map fst (teachers_collection db))"

text \<open>The response is the \<^verbatim>\<open>HTTPException\<close> with the given status code.\<close>

definition failed_with :: "nat \<Rightarrow> exn + 'a \<Rightarrow> bool" where
  "failed_with code r = (case r of Inl (HTTPException c d) \<Rightarrow> c = code | _ \<Rightarrow> False)"

text \<open>
  A pure calendar date: the string \<^verbatim>\<open>YYYY-MM-DD\<close> of a day that exists, and nothing after
  it.
\<close>

definition valid_calendar_date :: "string \<Rightarrow> bool" where
  "valid_calendar_date s =
     (case parse_isoformat_date s of None \<Rightarrow> False | Some d \<Rightarrow> check_date_fields d)"

text \<open>
  The dates of a request pass: the expiration date is read by the parser, and a start
  date that is given and not empty is read too and is no later, as a calendar date.
\<close>

definition valid_dates :: "string \<Rightarrow> string option \<Rightarrow> bool" where
  "valid_dates expiration_date start_date =
     (case fromisoformat expiration_date of
        None \<Rightarrow> False
      | Some exp_dt \<Rightarrow>
          (case start_date of
             None \<Rightarrow> True
           | Some s \<Rightarrow>
               s = [] \<or>
               (case fromisoformat s of
                  None \<Rightarrow> False
                | Some st_dt \<Rightarrow> date_of st_dt \<le> date_of exp_dt)))"

text \<open>
  The date window of a stored record is in order: a start date that is a non-empty
  string is read by the parser, so is the expiration date, and the start's calendar date
  is no later than the expiration's. A null or empty start date is no start date.
\<close>

definition window_in_order :: "document \<Rightarrow> bool" where
  "window_in_order d =
     (case map_of d ''start_date'' of
        Some (BString s) \<Rightarrow>
          s = [] \<or>
          (case (fromisoformat s, map_of d ''expiration_date'') of
             (Some st_dt, Some (BString x)) \<Rightarrow>
               (case fromisoformat x of
                  Some exp_dt \<Rightarrow> date_of st_dt \<le> date_of exp_dt
                | None \<Rightarrow> False)
           | _ \<Rightarrow> False)
      | _ \<Rightarrow> True)"

text \<open>The identifier field of a response document holds a string.\<close>

definition id_is_string :: "document \<Rightarrow> bool" where
  "id_is_string d = (case map_of d ''_id'' of Some (BString s) \<Rightarrow> True | _ \<Rightarrow> False)"

text \<open>A list of documents runs from the newest \<^verbatim>\<open>created_at\<close> to the oldest.\<close>

definition newest_first :: "document list \<Rightarrow> bool" where
  "newest_first ds =
     sorted_wrt (\<lambda>a b. bson_le (field_value b ''created_at'') (field_value a ''created_at'')) ds"

text \<open>
  What an update of the record under \<open>obj_id\<close> leaves of a stored record \<open>r\<close>, now \<open>r'\<close>:
  its \<^verbatim>\<open>_id\<close>, its \<^verbatim>\<open>created_by\<close> and its \<^verbatim>\<open>created_at\<close>, and all of it when its \<^verbatim>\<open>_id\<close> is
  another one.
\<close>

definition update_keeps :: "nat list \<Rightarrow> bson \<times> document \<Rightarrow> bson \<times> document \<Rightarrow> bool" where
  "update_keeps obj_id r r' \<longleftrightarrow>
     fst r' = fst r \<and>
     map_of (snd r') ''created_by'' = map_of (snd r) ''created_by'' \<and>
     map_of (snd r') ''created_at'' = map_of (snd r) ''created_at'' \<and>
     (fst r = BObjectId obj_id \<or> r' = r)"

subsection \<open>Example data\<close>

definition db0 :: database where
  "db0 = \<lparr>announcements_collection = [],
          teachers_collection = [(BString ''jdoe'', [(''display_name'', BString ''J. Doe'')])]\<rparr>"

definition e0 :: env where
  "e0 = \<lparr>today = (2024, 5, 15), utcnow_isoformat = ''2024-05-15T09:00:00.000001'',
         new_object_id = [101, 102, 103, 104, 105, 106, 107, 108, 109, 110, 111, 255]\<rparr>"

definition e1 :: env where
  "e1 = \<lparr>today = (2024, 5, 16), utcnow_isoformat = ''2024-05-16T09:00:00'',
         new_object_id = [1, 2, 3, 4, 5, 6, 7, 8, 9, 10, 11, 12]\<rparr>"

text \<open>The database after one announcement with a start date, and after a second one.\<close>

definition db1 :: database where
  "db1 = \<lparr>announcements_collection =
            [(BObjectId [101, 102, 103, 104, 105, 106, 107, 108, 109, 110, 111, 255],
              [(''message'', BString ''Exam Friday''),
               (''start_date'', BString ''2024-05-01''),
               (''expiration_date'', BString ''2024-06-01''),
               (''created_by'', BString ''jdoe''),
               (''created_at'', BString ''2024-05-15T09:00:00.000001'')])],
          teachers_collection = [(BString ''jdoe'', [(''display_name'', BString ''J. Doe'')])]\<rparr>"

definition db2 :: database where
  "db2 = \<lparr>announcements_collection =
            [(BObjectId [101, 102, 103, 104, 105, 106, 107, 108, 109, 110, 111, 255],
              [(''message'', BString ''Exam Friday''),
               (''start_date'', BString ''2024-05-01''),
               (''expiration_date'', BString ''2024-06-01''),
               (''created_by'', BString ''jdoe''),
               (''created_at'', BString ''2024-05-15T09:00:00.000001'')]),
             (BObjectId [1, 2, 3, 4, 5, 6, 7, 8, 9, 10, 11, 12],
              [(''message'', BString ''Sports day''),
               (''start_date'', BString ''2024-05-10''),
               (''expiration_date'', BString ''2024-05-20''),
               (''created_by'', BString ''jdoe''),
               (''created_at'', BString ''2024-05-16T09:00:00'')])],
          teachers_collection = [(BString ''jdoe'', [(''display_name'', BString ''J. Doe'')])]\<rparr>"

text \<open>The database after the first announcement was updated.\<close>

definition db3 :: database where
  "db3 = \<lparr>announcements_collection =
            [(BObjectId [101, 102, 103, 104, 105, 106, 107, 108, 109, 110, 111, 255],
              [(''message'', BString ''Exam Monday''),
               (''start_date'', BString ''2024-05-20''),
               (''expiration_date'', BString ''2024-06-03''),
               (''created_by'', BString ''jdoe''),
               (''created_at'', BString ''2024-05-15T09:00:00.000001''),
               (''updated_by'', BString ''jdoe''),
               (''updated_at'', BString ''2024-05-16T09:00:00'')]),
             (BObjectId [1, 2, 3, 4, 5, 6, 7, 8, 9, 10, 11, 12],
              [(''message'', BString ''Sports day''),
               (''start_date'', BString ''2024-05-10''),
               (''expiration_date'', BString ''2024-05-20''),
               (''created_by'', BString ''jdoe''),
               (''created_at'', BString ''2024-05-16T09:00:00'')])],
          teachers_collection = [(BString ''jdoe'', [(''display_name'', BString ''J. Doe'')])]\<rparr>"

section \<open>Properties\<close>

subsection \<open>The parser, authentication and the driver's operations\<close>

lemmas fromiso_defs = fromisoformat_def parse_digits_def is_ascii_digit_def digit_value_def
  parse_isoformat_time_def parse_hh_mm_ss_ff_def separator_width_def check_date_fields_def
  check_time_fields_def check_utcoffset_def days_in_month_def is_leap_def

lemma fromisoformat_Nil: "fromisoformat [] = None"
  by (simp add: fromisoformat_def)

lemma field_value_id: "field_value (doc_of r) ''_id'' = fst r"
  by (simp add: field_value_def doc_of_def)

lemma matches_id: "matches (Eq ''_id'' v) (doc_of r) \<longleftrightarrow> fst r = v"
  by (simp add: field_value_id)

lemma find_one_None_iff: "find_one q c = None \<longleftrightarrow> (\<forall>r\<in>set c. \<not> matches q (doc_of r))"
proof -
  have "find_one q c = None \<longleftrightarrow> filter (\<lambda>r. matches q (doc_of r)) c = []"
    by (simp add: find_one_def find_coll_def split: list.splits)
  then show ?thesis
    by (simp add: filter_empty_conv)
qed

lemma find_one_id_None_iff: "find_one (Eq ''_id'' v) c = None \<longleftrightarrow> v \<notin> set (map fst c)"
  by (simp add: find_one_None_iff field_value_id) force

lemma authenticate_None_iff:
  "authenticate db username = None \<longleftrightarrow> (\<exists>u. username = Some u \<and> u \<noteq> [] \<and> known_user db u)"
  by (auto simp: authenticate_def known_user_def find_one_id_None_iff split: option.splits)

lemma authenticate_Some_401:
  "authenticate db username = Some err \<Longrightarrow> \<exists>d. err = HTTPException 401 d"
  by (auto simp: authenticate_def split: option.splits if_splits)

lemma validate_dates_None_iff: "validate_dates x s = None \<longleftrightarrow> valid_dates x s"
  by (auto simp: validate_dates_def valid_dates_def split: option.splits)

lemma validate_dates_Some_400:
  "validate_dates x s = Some err \<Longrightarrow> \<exists>d. err = HTTPException 400 d"
  by (auto simp: validate_dates_def split: option.splits if_splits)

lemma update_one_no_match:
  "\<forall>r\<in>set c. \<not> matches q (doc_of r) \<Longrightarrow> update_one q upd c = (0, c)"
  by (induction c) auto

lemma update_one_match:
  "r \<in> set c \<Longrightarrow> matches q (doc_of r) \<Longrightarrow> fst (update_one q upd c) = 1"
  by (induction c) (auto split: prod.splits)

lemma delete_one_no_match:
  "\<forall>r\<in>set c. \<not> matches q (doc_of r) \<Longrightarrow> delete_one q c = (0, c)"
  by (induction c) auto

lemma delete_one_match:
  "r \<in> set c \<Longrightarrow> matches q (doc_of r) \<Longrightarrow> fst (delete_one q c) = 1"
  by (induction c) (auto split: prod.splits)

subsection \<open>Authentication comes first\<close>

text \<open>
  C7: every operation that takes a caller (\<^verbatim>\<open>list_all\<close>, \<^verbatim>\<open>create\<close>, \<^verbatim>\<open>update\<close>, \<^verbatim>\<open>delete\<close>)
  fails with Unauthenticated (status 401) when the caller is absent, empty or not a known
  user, whatever the message, the dates and the identifier are, valid or not, and the
  database is the one it was.
\<close>

theorem unauthenticated_first:
  assumes "username = None \<or> username = Some [] \<or> (\<exists>u. username = Some u \<and> \<not> known_user db u)"
  shows "(\<exists>d. get_all_announcements db username = Inl (HTTPException 401 d)) \<and>
         (\<exists>d. create_announcement e db message expiration_date username start_date
                 = (Inl (HTTPException 401 d), db)) \<and>
         (\<exists>d. update_announcement e db announcement_id message expiration_date username start_date
                 = (Inl (HTTPException 401 d), db)) \<and>
         (\<exists>d. delete_announcement db announcement_id username = (Inl (HTTPException 401 d), db))"
proof -
  from assms have "authenticate db username \<noteq> None"
    by (auto simp: authenticate_None_iff)
  then obtain err where err: "authenticate db username = Some err"
    by auto
  then obtain d where "err = HTTPException 401 d"
    using authenticate_Some_401 by blast
  with err show ?thesis
    by (simp add: get_all_announcements_def create_announcement_def update_announcement_def
        delete_announcement_def)
qed

theorem unauthenticated_first_witness:
  "\<not> known_user db0 ''ghost'' \<and>
   get_all_announcements db0 (Some ''ghost'') = Inl (HTTPException 401 ''Invalid user'') \<and>
   create_announcement e0 db0 ''Exam Friday'' ''tomorrow'' (Some ''ghost'') (Some ''2024-13-01'')
     = (Inl (HTTPException 401 ''Invalid user''), db0) \<and>
   update_announcement e0 db0 ''no such id'' ''Exam Friday'' ''tomorrow'' (Some ''ghost'') None
     = (Inl (HTTPException 401 ''Invalid user''), db0) \<and>
   delete_announcement db0 ''no such id'' (Some ''ghost'')
     = (Inl (HTTPException 401 ''Invalid user''), db0)"
proof -
  have k: "\<not> known_user db0 ''ghost''"
    by (simp add: known_user_def db0_def)
  then have h: "Some ''ghost'' = None \<or> Some ''ghost'' = Some [] \<or>
      (\<exists>u. Some ''ghost'' = Some u \<and> \<not> known_user db0 u)"
    by simp
  have a: "authenticate db0 (Some ''ghost'') = Some (HTTPException 401 ''Invalid user'')"
    by (simp add: authenticate_def db0_def find_one_def find_coll_def doc_of_def field_value_def)
  from unauthenticated_first [OF h, of e0 "''Exam Friday''" "''tomorrow''" "Some ''2024-13-01''" "''no such id''"]
       unauthenticated_first [OF h, of e0 "''Exam Friday''" "''tomorrow''" None "''no such id''"]
  show ?thesis using k a
    by (simp add: get_all_announcements_def create_announcement_def update_announcement_def
        delete_announcement_def)
qed

subsection \<open>Which requests are rejected as invalid\<close>

lemma not_valid_dates_iff:
  "\<not> valid_dates expiration_date start_date \<longleftrightarrow>
     fromisoformat expiration_date = None \<or>
     (\<exists>s. start_date = Some s \<and> s \<noteq> [] \<and> fromisoformat s = None) \<or>
     (\<exists>s st_dt exp_dt. start_date = Some s \<and> fromisoformat s = Some st_dt \<and>
        fromisoformat expiration_date = Some exp_dt \<and> date_of st_dt > date_of exp_dt)"
  by (auto simp: valid_dates_def fromisoformat_Nil split: option.splits)

lemma create_failed_400_iff:
  assumes "authenticate db username = None"
  shows "failed_with 400 (fst (create_announcement e db message expiration_date username start_date))
           \<longleftrightarrow> \<not> valid_dates expiration_date start_date"
proof (cases "validate_dates expiration_date start_date")
  case None
  then have v: "valid_dates expiration_date start_date"
    by (simp add: validate_dates_None_iff)
  from assms None have "\<not> failed_with 400
      (fst (create_announcement e db message expiration_date username start_date))"
    by (simp add: create_announcement_def failed_with_def insert_one_def Let_def)
  with v show ?thesis by simp
next
  case (Some err)
  then obtain d where "err = HTTPException 400 d"
    using validate_dates_Some_400 by blast
  moreover from Some have "\<not> valid_dates expiration_date start_date"
    using validate_dates_None_iff [of expiration_date start_date] by simp
  ultimately show ?thesis
    using assms Some by (simp add: create_announcement_def failed_with_def)
qed

lemma update_failed_400_iff:
  assumes "authenticate db username = None"
  shows "failed_with 400
           (fst (update_announcement e db announcement_id message expiration_date username start_date))
           \<longleftrightarrow> \<not> valid_dates expiration_date start_date \<or> ObjectId announcement_id = None"
proof (cases "validate_dates expiration_date start_date")
  case None
  then have v: "valid_dates expiration_date start_date"
    by (simp add: validate_dates_None_iff)
  show ?thesis
  proof (cases "ObjectId announcement_id")
    case None
    then show ?thesis
      using assms \<open>validate_dates expiration_date start_date = None\<close>
      by (simp add: update_announcement_def failed_with_def)
  next
    case (Some obj_id)
    then show ?thesis
      using assms v \<open>validate_dates expiration_date start_date = None\<close>
      by (simp add: update_announcement_def failed_with_def Let_def
          split: prod.splits option.splits)
  qed
next
  case (Some err)
  then obtain d where "err = HTTPException 400 d"
    using validate_dates_Some_400 by blast
  moreover from Some have "\<not> valid_dates expiration_date start_date"
    using validate_dates_None_iff [of expiration_date start_date] by simp
  ultimately show ?thesis
    using assms Some by (simp add: update_announcement_def failed_with_def)
qed

lemma known_jdoe: "known_user db0 ''jdoe''"
  by (simp add: known_user_def db0_def)

lemma fromisoformat_tomorrow: "fromisoformat ''tomorrow'' = None"
  by (simp add: fromiso_defs)

lemma ObjectId_no_such_id: "ObjectId ''no such id'' = None"
  by (simp add: ObjectId_def)

text \<open>
  C2, as the code has it: for a known caller, \<^verbatim>\<open>create\<close> fails with InvalidArgument
  (status 400) exactly when the parser \<^verbatim>\<open>datetime.fromisoformat\<close> rejects the expiration
  date, or rejects a start date that is given and not empty, or reads both and the start's
  calendar date is later than the expiration's; \<^verbatim>\<open>update\<close> fails with it exactly in these
  cases and when the identifier is malformed. The parser reads date-times: a string with
  a time of day is accepted, and an empty start date counts as none.
\<close>

theorem invalid_argument_iff:
  assumes "u \<noteq> []" and "known_user db u"
  shows "(failed_with 400
            (fst (create_announcement e db message expiration_date (Some u) start_date)) \<longleftrightarrow>
          fromisoformat expiration_date = None \<or>
          (\<exists>s. start_date = Some s \<and> s \<noteq> [] \<and> fromisoformat s = None) \<or>
          (\<exists>s st_dt exp_dt. start_date = Some s \<and> fromisoformat s = Some st_dt \<and>
             fromisoformat expiration_date = Some exp_dt \<and> date_of st_dt > date_of exp_dt)) \<and>
         (failed_with 400
            (fst (update_announcement e db announcement_id message expiration_date (Some u)
                    start_date)) \<longleftrightarrow>
          fromisoformat expiration_date = None \<or>
          (\<exists>s. start_date = Some s \<and> s \<noteq> [] \<and> fromisoformat s = None) \<or>
          (\<exists>s st_dt exp_dt. start_date = Some s \<and> fromisoformat s = Some st_dt \<and>
             fromisoformat expiration_date = Some exp_dt \<and> date_of st_dt > date_of exp_dt) \<or>
          ObjectId announcement_id = None)"
proof -
  from assms have a: "authenticate db (Some u) = None"
    by (simp add: authenticate_None_iff)
  show ?thesis
    unfolding create_failed_400_iff [OF a] update_failed_400_iff [OF a] not_valid_dates_iff
    by (simp add: disj_assoc)
qed

theorem invalid_argument_iff_witness:
  "''jdoe'' \<noteq> [] \<and> known_user db0 ''jdoe'' \<and>
   failed_with 400
     (fst (create_announcement e0 db0 ''Exam Friday'' ''tomorrow'' (Some ''jdoe'') None)) \<and>
   failed_with 400
     (fst (update_announcement e0 db0 ''no such id'' ''Exam Friday'' ''2024-06-01''
             (Some ''jdoe'') None))"
proof -
  have n: "''jdoe'' \<noteq> []" by simp
  from invalid_argument_iff [OF n known_jdoe, of e0 "''Exam Friday''" "''tomorrow''" None "''no such id''"]
       invalid_argument_iff [OF n known_jdoe, of e0 "''Exam Friday''" "''2024-06-01''" None "''no such id''"]
  show ?thesis
    using known_jdoe fromisoformat_tomorrow ObjectId_no_such_id by simp
qed

text \<open>
  The claim as it was stated has a date string that is not a pure calendar date rejected.
  An expiration date with a time of day is not one, and the announcement is created.
\<close>

lemma fromisoformat_time_of_day:
  "fromisoformat ''2024-06-01T10:30:00'' =
     Some \<lparr>dt_date = (2024, 6, 1), dt_time = (10, 30, 0, 0), dt_utcoffset = None\<rparr>"
  by (simp add: fromiso_defs)

lemma hexlify_e0:
  "hexlify [101, 102, 103, 104, 105, 106, 107, 108, 109, 110, 111, 255] =
     ''65666768696a6b6c6d6e6fff''"
  by (simp add: hexlify_def)

theorem time_of_day_accepted:
  "\<not> valid_calendar_date ''2024-06-01T10:30:00'' \<and>
   known_user db0 ''jdoe'' \<and>
   create_announcement e0 db0 ''Exam Friday'' ''2024-06-01T10:30:00'' (Some ''jdoe'') None =
     (Inr [(''message'', BString ''Exam Friday''),
           (''start_date'', BNull),
           (''expiration_date'', BString ''2024-06-01T10:30:00''),
           (''created_by'', BString ''jdoe''),
           (''created_at'', BString ''2024-05-15T09:00:00.000001''),
           (''_id'', BString ''65666768696a6b6c6d6e6fff'')],
      db0\<lparr>announcements_collection :=
            [(BObjectId [101, 102, 103, 104, 105, 106, 107, 108, 109, 110, 111, 255],
              [(''message'', BString ''Exam Friday''),
               (''start_date'', BNull),
               (''expiration_date'', BString ''2024-06-01T10:30:00''),
               (''created_by'', BString ''jdoe''),
               (''created_at'', BString ''2024-05-15T09:00:00.000001'')])]\<rparr>)"
proof -
  have a: "authenticate db0 (Some ''jdoe'') = None"
    by (simp add: authenticate_None_iff known_jdoe)
  have v: "validate_dates ''2024-06-01T10:30:00'' None = None"
    by (simp add: validate_dates_def fromisoformat_time_of_day)
  have c: "\<not> valid_calendar_date ''2024-06-01T10:30:00''"
    by (simp add: valid_calendar_date_def)
  show ?thesis
    using a v c known_jdoe
    by (simp add: create_announcement_def insert_one_def opt_string_def e0_def db0_def
        hexlify_e0)
qed

subsection \<open>A start date after the expiration date\<close>

lemma fromisoformat_june: 
  "fromisoformat ''2024-06-01'' =
     Some \<lparr>dt_date = (2024, 6, 1), dt_time = (0, 0, 0, 0), dt_utcoffset = None\<rparr>"
  by (simp add: fromiso_defs)

lemma fromisoformat_july: 
  "fromisoformat ''2024-07-01'' =
     Some \<lparr>dt_date = (2024, 7, 1), dt_time = (0, 0, 0, 0), dt_utcoffset = None\<rparr>"
  by (simp add: fromiso_defs)

lemma not_known_ghost: "\<not> known_user db0 ''ghost''"
  by (simp add: known_user_def db0_def)

text \<open>
  C3, as the code has it: for every call to \<^verbatim>\<open>create\<close> by a known caller in which both dates
  are read by the parser and the start's calendar date is later than the expiration's, the
  call fails with InvalidArgument (status 400) and the database is the one it was: no
  record is inserted.
\<close>

theorem create_start_after_expiration:
  assumes "u \<noteq> []" and "known_user db u"
    and "fromisoformat expiration_date = Some exp_dt"
    and "fromisoformat start = Some st_dt"
    and "date_of st_dt > date_of exp_dt"
  shows "create_announcement e db message expiration_date (Some u) (Some start) =
           (Inl (HTTPException 400 ''Start date must be before expiration date''), db)"
proof -
  from assms(1,2) have a: "authenticate db (Some u) = None"
    by (simp add: authenticate_None_iff)
  from assms(4) have "start \<noteq> []"
    by (auto simp: fromisoformat_Nil)
  with assms(3-5) have "validate_dates expiration_date (Some start) =
      Some (HTTPException 400 ''Start date must be before expiration date'')"
    by (simp add: validate_dates_def)
  with a show ?thesis
    by (simp add: create_announcement_def)
qed

theorem create_start_after_expiration_witness:
  "''jdoe'' \<noteq> [] \<and> known_user db0 ''jdoe'' \<and>
   date_of \<lparr>dt_date = (2024, 7, 1), dt_time = (0, 0, 0, 0), dt_utcoffset = None\<rparr>
     > date_of \<lparr>dt_date = (2024, 6, 1), dt_time = (0, 0, 0, 0), dt_utcoffset = None\<rparr> \<and>
   create_announcement e0 db0 ''Exam Friday'' ''2024-06-01'' (Some ''jdoe'') (Some ''2024-07-01'') =
     (Inl (HTTPException 400 ''Start date must be before expiration date''), db0)"
proof -
  have n: "''jdoe'' \<noteq> []" by simp
  have l: "date_of \<lparr>dt_date = (2024, 7, 1), dt_time = (0, 0, 0, 0), dt_utcoffset = None\<rparr>
     > date_of \<lparr>dt_date = (2024, 6, 1), dt_time = (0, 0, 0, 0), dt_utcoffset = None\<rparr>"
    by (simp add: date_of_def)
  from create_start_after_expiration [OF n known_jdoe fromisoformat_june fromisoformat_july l]
  show ?thesis using known_jdoe l by simp
qed

lemma fromisoformat_late:
  "fromisoformat ''2024-06-01T23:59:59'' =
     Some \<lparr>dt_date = (2024, 6, 1), dt_time = (23, 59, 59, 0), dt_utcoffset = None\<rparr>"
  by (simp add: fromiso_defs)

lemma create_late_start:
  "create_announcement e0 db0 ''Exam Friday'' ''2024-06-01'' (Some ''jdoe'')
       (Some ''2024-06-01T23:59:59'') =
     (Inr [(''message'', BString ''Exam Friday''),
           (''start_date'', BString ''2024-06-01T23:59:59''),
           (''expiration_date'', BString ''2024-06-01''),
           (''created_by'', BString ''jdoe''),
           (''created_at'', BString ''2024-05-15T09:00:00.000001''),
           (''_id'', BString ''65666768696a6b6c6d6e6fff'')],
      db0\<lparr>announcements_collection :=
            [(BObjectId [101, 102, 103, 104, 105, 106, 107, 108, 109, 110, 111, 255],
              [(''message'', BString ''Exam Friday''),
               (''start_date'', BString ''2024-06-01T23:59:59''),
               (''expiration_date'', BString ''2024-06-01''),
               (''created_by'', BString ''jdoe''),
               (''created_at'', BString ''2024-05-15T09:00:00.000001'')])]\<rparr>)"
proof -
  have a: "authenticate db0 (Some ''jdoe'') = None"
    by (simp add: authenticate_None_iff known_jdoe)
  have v: "validate_dates ''2024-06-01'' (Some ''2024-06-01T23:59:59'') = None"
    by (simp add: validate_dates_def fromisoformat_june fromisoformat_late date_of_def)
  show ?thesis
    using a v
    by (simp add: create_announcement_def insert_one_def opt_string_def e0_def db0_def
        hexlify_e0)
qed

lemma create_empty_start:
  "create_announcement e0 db0 ''Exam Friday'' ''2024-06-01'' (Some ''jdoe'') (Some '''') =
     (Inr [(''message'', BString ''Exam Friday''),
           (''start_date'', BString ''''),
           (''expiration_date'', BString ''2024-06-01''),
           (''created_by'', BString ''jdoe''),
           (''created_at'', BString ''2024-05-15T09:00:00.000001''),
           (''_id'', BString ''65666768696a6b6c6d6e6fff'')],
      db0\<lparr>announcements_collection :=
            [(BObjectId [101, 102, 103, 104, 105, 106, 107, 108, 109, 110, 111, 255],
              [(''message'', BString ''Exam Friday''),
               (''start_date'', BString ''''),
               (''expiration_date'', BString ''2024-06-01''),
               (''created_by'', BString ''jdoe''),
               (''created_at'', BString ''2024-05-15T09:00:00.000001'')])]\<rparr>)"
proof -
  have a: "authenticate db0 (Some ''jdoe'') = None"
    by (simp add: authenticate_None_iff known_jdoe)
  have v: "validate_dates ''2024-06-01'' (Some '''') = None"
    by (simp add: validate_dates_def fromisoformat_june)
  show ?thesis
    using a v
    by (simp add: create_announcement_def insert_one_def opt_string_def e0_def db0_def
        hexlify_e0)
qed

text \<open>
  As it was stated, C3 fails in two ways. Authentication comes first: dates in the wrong
  order from an unknown caller get status 401, not 400. And the handler compares calendar
  dates only: for a known caller, a start date later on the day of the expiration date,
  which is after it as a string and as a date and time, is not rejected, and the record is
  inserted.
\<close>

theorem start_after_expiration_not_rejected:
  "fromisoformat ''2024-06-01'' =
     Some \<lparr>dt_date = (2024, 6, 1), dt_time = (0, 0, 0, 0), dt_utcoffset = None\<rparr> \<and>
   fromisoformat ''2024-07-01'' =
     Some \<lparr>dt_date = (2024, 7, 1), dt_time = (0, 0, 0, 0), dt_utcoffset = None\<rparr> \<and>
   (2024, 7, 1) > ((2024, 6, 1) :: date) \<and>
   create_announcement e0 db0 ''Exam Friday'' ''2024-06-01'' (Some ''ghost'') (Some ''2024-07-01'') =
     (Inl (HTTPException 401 ''Invalid user''), db0) \<and>
   \<not> failed_with 400
     (fst (create_announcement e0 db0 ''Exam Friday'' ''2024-06-01'' (Some ''ghost'')
             (Some ''2024-07-01''))) \<and>
   known_user db0 ''jdoe'' \<and>
   fromisoformat ''2024-06-01T23:59:59'' =
     Some \<lparr>dt_date = (2024, 6, 1), dt_time = (23, 59, 59, 0), dt_utcoffset = None\<rparr> \<and>
   ''2024-06-01T23:59:59'' > ''2024-06-01'' \<and>
   ((2024, 6, 1), (23, 59, 59, 0)) > (((2024, 6, 1), (0, 0, 0, 0)) :: date \<times> int \<times> int \<times> int \<times> int) \<and>
   \<not> failed_with 400
     (fst (create_announcement e0 db0 ''Exam Friday'' ''2024-06-01'' (Some ''jdoe'')
             (Some ''2024-06-01T23:59:59''))) \<and>
   announcements_collection
     (snd (create_announcement e0 db0 ''Exam Friday'' ''2024-06-01'' (Some ''jdoe'')
             (Some ''2024-06-01T23:59:59''))) =
     [(BObjectId [101, 102, 103, 104, 105, 106, 107, 108, 109, 110, 111, 255],
       [(''message'', BString ''Exam Friday''),
        (''start_date'', BString ''2024-06-01T23:59:59''),
        (''expiration_date'', BString ''2024-06-01''),
        (''created_by'', BString ''jdoe''),
        (''created_at'', BString ''2024-05-15T09:00:00.000001'')])]"
proof -
  have "authenticate db0 (Some ''ghost'') = Some (HTTPException 401 ''Invalid user'')"
    using not_known_ghost
    by (simp add: authenticate_def known_user_def find_one_id_None_iff)
  then have 1: "create_announcement e0 db0 ''Exam Friday'' ''2024-06-01'' (Some ''ghost'')
      (Some ''2024-07-01'') = (Inl (HTTPException 401 ''Invalid user''), db0)"
    by (simp add: create_announcement_def)
  have 2: "(2024, 7, 1) > ((2024, 6, 1) :: date)"
    by simp
  have 3: "''2024-06-01T23:59:59'' > ''2024-06-01''"
    by simp
  have 4: "((2024, 6, 1), (23, 59, 59, 0)) >
      (((2024, 6, 1), (0, 0, 0, 0)) :: date \<times> int \<times> int \<times> int \<times> int)"
    by simp
  show ?thesis
    unfolding 1 create_late_start
    using 2 3 4 known_jdoe fromisoformat_june fromisoformat_july fromisoformat_late
    by (simp add: failed_with_def)
qed

subsection \<open>Updating a record that is not there\<close>

lemma ObjectId_other:
  "ObjectId ''0102030405060708090A0b0c'' = Some [1, 2, 3, 4, 5, 6, 7, 8, 9, 10, 11, 12]"
  by (simp add: ObjectId_def hex_value_def is_space_def)

lemma known_jdoe1: "known_user db1 ''jdoe''"
  by (simp add: known_user_def db1_def)

text \<open>
  C4: for every call to \<^verbatim>\<open>update\<close> by a known caller, with dates that pass and a well-formed
  identifier that no stored record has, the call fails with NotFound (status 404) and the
  database is the one it was.
\<close>

theorem update_missing_not_found:
  assumes "u \<noteq> []" and "known_user db u"
    and "valid_dates expiration_date start_date"
    and "ObjectId announcement_id = Some obj_id"
    and "BObjectId obj_id \<notin> set (map fst (announcements_collection db))"
  shows "update_announcement e db announcement_id message expiration_date (Some u) start_date =
           (Inl (HTTPException 404 ''Announcement not found''), db)"
proof -
  from assms(1,2) have a: "authenticate db (Some u) = None"
    by (simp add: authenticate_None_iff)
  from assms(3) have v: "validate_dates expiration_date start_date = None"
    by (simp add: validate_dates_None_iff)
  from assms(5) have "\<forall>r\<in>set (announcements_collection db).
      \<not> matches (Eq ''_id'' (BObjectId obj_id)) (doc_of r)"
    by (force simp: field_value_id)
  then have "update_one (Eq ''_id'' (BObjectId obj_id)) upd (announcements_collection db) =
      (0, announcements_collection db)" for upd
    by (rule update_one_no_match)
  with a v assms(4) show ?thesis
    by (simp add: update_announcement_def)
qed

theorem update_missing_not_found_witness:
  "''jdoe'' \<noteq> [] \<and> known_user db1 ''jdoe'' \<and> valid_dates ''2024-06-01'' None \<and>
   ObjectId ''0102030405060708090A0b0c'' = Some [1, 2, 3, 4, 5, 6, 7, 8, 9, 10, 11, 12] \<and>
   BObjectId [1, 2, 3, 4, 5, 6, 7, 8, 9, 10, 11, 12]
     \<notin> set (map fst (announcements_collection db1)) \<and>
   update_announcement e1 db1 ''0102030405060708090A0b0c'' ''Exam Monday'' ''2024-06-01''
       (Some ''jdoe'') None =
     (Inl (HTTPException 404 ''Announcement not found''), db1)"
proof -
  have n: "''jdoe'' \<noteq> []" by simp
  have v: "valid_dates ''2024-06-01'' None"
    by (simp add: valid_dates_def fromisoformat_june)
  have m: "BObjectId [1, 2, 3, 4, 5, 6, 7, 8, 9, 10, 11, 12]
     \<notin> set (map fst (announcements_collection db1))"
    by (simp add: db1_def)
  from update_missing_not_found [OF n known_jdoe1 v ObjectId_other m]
  show ?thesis using known_jdoe1 v ObjectId_other m by simp
qed

subsection \<open>Deleting twice\<close>

text \<open>
  MongoDB keeps the \<^verbatim>\<open>_id\<close>s of a collection distinct. The driver's operations as modelled
  keep them so: an insert under an \<^verbatim>\<open>_id\<close> in use is refused, an update leaves the \<^verbatim>\<open>_id\<close>s
  alone, a delete removes one.
\<close>

lemma delete_one_removes_id:
  "distinct (map fst c) \<Longrightarrow> fst (delete_one (Eq ''_id'' v) c) \<noteq> 0 \<Longrightarrow>
     v \<notin> set (map fst (snd (delete_one (Eq ''_id'' v) c)))"
proof (induction c)
  case Nil
  then show ?case by simp
next
  case (Cons r c)
  show ?case
  proof (cases "fst r = v")
    case True
    with Cons.prems show ?thesis
      by (simp add: field_value_id)
  next
    case False
    with Cons show ?thesis
      by (simp add: field_value_id split: prod.splits)
  qed
qed

lemma delete_one_subset: "set (snd (delete_one q c)) \<subseteq> set c"
  by (induction c) (auto split: prod.splits)

lemma delete_one_distinct:
  "distinct (map fst c) \<Longrightarrow> distinct (map fst (snd (delete_one q c)))"
proof (induction c)
  case Nil
  then show ?case by simp
next
  case (Cons r c)
  show ?case
  proof (cases "matches q (doc_of r)")
    case True
    with Cons.prems show ?thesis by simp
  next
    case False
    then have s: "snd (delete_one q (r # c)) = r # snd (delete_one q c)"
      by (simp split: prod.splits)
    have "fst ` set (snd (delete_one q c)) \<subseteq> fst ` set c"
      using delete_one_subset [of q c] by blast
    with Cons.prems have "fst r \<notin> fst ` set (snd (delete_one q c))"
      by auto
    with Cons show ?thesis
      unfolding s by simp
  qed
qed

lemma insert_one_distinct:
  "distinct (map fst c) \<Longrightarrow> insert_one new_id d c = Inr (i, c') \<Longrightarrow> distinct (map fst c')"
  by (auto simp: insert_one_def split: if_splits)

lemma update_one_ids: "map fst (snd (update_one q upd c)) = map fst c"
  by (induction c) (auto simp: set_fields_def split: prod.splits)

lemma ObjectId_first:
  "ObjectId ''65666768696a6b6c6d6e6fff'' =
     Some [101, 102, 103, 104, 105, 106, 107, 108, 109, 110, 111, 255]"
  by (simp add: ObjectId_def hex_value_def is_space_def)

lemma delete_first_db1:
  "delete_announcement db1 ''65666768696a6b6c6d6e6fff'' (Some ''jdoe'') =
     (Inr [(''message'', BString ''Announcement deleted successfully'')], db0)"
proof -
  have "authenticate db1 (Some ''jdoe'') = None"
    by (simp add: authenticate_None_iff known_jdoe1)
  then show ?thesis
    by (simp add: delete_announcement_def ObjectId_first db1_def db0_def field_value_id)
qed

text \<open>
  C5: in a collection with distinct \<^verbatim>\<open>_id\<close>s, after a successful delete of an identifier a
  second delete of the same identifier by a known caller fails with NotFound (status 404)
  and leaves the database as the first delete left it.
\<close>

theorem delete_twice_not_found:
  assumes "distinct (map fst (announcements_collection db))"
    and "delete_announcement db announcement_id username = (Inr r, db')"
    and "u \<noteq> []" and "known_user db' u"
  shows "delete_announcement db' announcement_id (Some u) =
           (Inl (HTTPException 404 ''Announcement not found''), db')"
proof -
  from assms(2) have a: "authenticate db username = None"
    by (auto simp: delete_announcement_def split: option.splits)
  with assms(2) obtain obj_id where o: "ObjectId announcement_id = Some obj_id"
    by (auto simp: delete_announcement_def split: option.splits)
  let ?q = "Eq ''_id'' (BObjectId obj_id)"
  from assms(2) a o have n: "fst (delete_one ?q (announcements_collection db)) \<noteq> 0"
    and d: "announcements_collection db' = snd (delete_one ?q (announcements_collection db))"
    by (auto simp: delete_announcement_def split: prod.splits if_splits)
  from delete_one_removes_id [OF assms(1) n] d
  have "\<forall>r\<in>set (announcements_collection db'). \<not> matches ?q (doc_of r)"
    by (force simp: field_value_id)
  then have "delete_one ?q (announcements_collection db') = (0, announcements_collection db')"
    by (rule delete_one_no_match)
  moreover from assms(3,4) have "authenticate db' (Some u) = None"
    by (simp add: authenticate_None_iff)
  ultimately show ?thesis
    using o by (simp add: delete_announcement_def)
qed

theorem delete_twice_not_found_witness:
  "distinct (map fst (announcements_collection db1)) \<and>
   delete_announcement db1 ''65666768696a6b6c6d6e6fff'' (Some ''jdoe'') =
     (Inr [(''message'', BString ''Announcement deleted successfully'')], db0) \<and>
   ''jdoe'' \<noteq> [] \<and> known_user db0 ''jdoe'' \<and>
   delete_announcement db0 ''65666768696a6b6c6d6e6fff'' (Some ''jdoe'') =
     (Inl (HTTPException 404 ''Announcement not found''), db0)"
proof -
  have i: "distinct (map fst (announcements_collection db1))"
    by (simp add: db1_def)
  have n: "''jdoe'' \<noteq> []" by simp
  from delete_twice_not_found [OF i delete_first_db1 n known_jdoe]
  show ?thesis using i delete_first_db1 known_jdoe by simp
qed

subsection \<open>What an update leaves alone\<close>

lemma map_of_set_fields:
  "map_of (foldl (\<lambda>d (k, v). AList.update k v d) d upd) = map_of d ++ map_of (rev upd)"
proof (induction upd arbitrary: d)
  case Nil
  then show ?case by simp
next
  case (Cons p upd)
  obtain k v where p: "p = (k, v)" by (cases p)
  have "map_of (foldl (\<lambda>d (k, v). AList.update k v d) d (p # upd)) =
      map_of (AList.update k v d) ++ map_of (rev upd)"
    using Cons.IH [of "AList.update k v d"] by (simp add: p)
  also have "\<dots> = map_of d ++ map_of (rev (p # upd))"
    by (simp add: p update_conv' map_add_upd_left map_add_assoc [symmetric])
  finally show ?case .
qed

lemma set_fields_keeps:
  "f \<notin> fst ` set upd \<Longrightarrow> map_of (snd (set_fields upd r)) f = map_of (snd r) f"
proof -
  assume "f \<notin> fst ` set upd"
  then have "map_of (rev upd) f = None"
    by (simp add: map_of_eq_None_iff)
  then show ?thesis
    by (simp add: set_fields_def map_of_set_fields map_add_def)
qed

lemma set_fields_sets:
  "map_of (rev upd) f = Some v \<Longrightarrow> map_of (snd (set_fields upd r)) f = Some v"
  by (simp add: set_fields_def map_of_set_fields map_add_def)

lemma fst_set_fields: "fst (set_fields upd r) = fst r"
  by (simp add: set_fields_def)

lemma update_one_keeps:
  assumes "''created_by'' \<notin> fst ` set upd" and "''created_at'' \<notin> fst ` set upd"
  shows "list_all2 (update_keeps obj_id) c (snd (update_one (Eq ''_id'' (BObjectId obj_id)) upd c))"
proof (induction c)
  case Nil
  then show ?case by simp
next
  case (Cons r c)
  have same: "list_all2 (update_keeps obj_id) c c"
    by (simp add: list_all2_same update_keeps_def)
  show ?case
  proof (cases "fst r = BObjectId obj_id")
    case True
    with assms have "update_keeps obj_id r (set_fields upd r)"
      by (simp add: update_keeps_def fst_set_fields set_fields_keeps)
    with True same show ?thesis
      by (simp add: field_value_id)
  next
    case False
    then have "update_keeps obj_id r r"
      by (simp add: update_keeps_def)
    with False Cons.IH show ?thesis
      by (auto simp: field_value_id split: prod.splits)
  qed
qed

lemma update_one_find_one:
  "fst (update_one (Eq ''_id'' v) upd c) \<noteq> 0 \<Longrightarrow>
     \<exists>r\<in>set c. fst r = v \<and>
       find_one (Eq ''_id'' v) (snd (update_one (Eq ''_id'' v) upd c)) = Some (set_fields upd r)"
proof (induction c)
  case Nil
  then show ?case by simp
next
  case (Cons r c)
  show ?case
  proof (cases "fst r = v")
    case True
    then show ?thesis
      by (simp add: field_value_id find_one_def find_coll_def fst_set_fields)
  next
    case False
    with Cons.prems have "fst (update_one (Eq ''_id'' v) upd c) \<noteq> 0"
      by (simp add: field_value_id split: prod.splits)
    from Cons.IH [OF this] False show ?thesis
      by (auto simp: field_value_id find_one_def find_coll_def split: prod.splits)
  qed
qed

text \<open>What a successful update comes down to.\<close>

lemma update_announcement_Inr:
  assumes "update_announcement e db announcement_id message expiration_date username start_date
             = (Inr d, db')"
  obtains u obj_id r where
    "username = Some u" and "u \<noteq> []" and "known_user db u"
    and "valid_dates expiration_date start_date"
    and "ObjectId announcement_id = Some obj_id"
    and "r \<in> set (announcements_collection db)" and "fst r = BObjectId obj_id"
    and "db' = db\<lparr>announcements_collection :=
           snd (update_one (Eq ''_id'' (BObjectId obj_id))
                  [(''message'', BString message),
                   (''start_date'', opt_string start_date),
                   (''expiration_date'', BString expiration_date),
                   (''updated_by'', opt_string username),
                   (''updated_at'', BString (utcnow_isoformat e))]
                  (announcements_collection db))\<rparr>"
    and "find_one (Eq ''_id'' (BObjectId obj_id)) (announcements_collection db') =
           Some (set_fields
                  [(''message'', BString message),
                   (''start_date'', opt_string start_date),
                   (''expiration_date'', BString expiration_date),
                   (''updated_by'', opt_string username),
                   (''updated_at'', BString (utcnow_isoformat e))] r)"
    and "d = stringify_id (set_fields
                  [(''message'', BString message),
                   (''start_date'', opt_string start_date),
                   (''expiration_date'', BString expiration_date),
                   (''updated_by'', opt_string username),
                   (''updated_at'', BString (utcnow_isoformat e))] r)"
proof -
  let ?upd = "[(''message'', BString message),
                   (''start_date'', opt_string start_date),
                   (''expiration_date'', BString expiration_date),
                   (''updated_by'', opt_string username),
                   (''updated_at'', BString (utcnow_isoformat e))]"
  from assms have a: "authenticate db username = None"
    by (auto simp: update_announcement_def split: option.splits)
  then obtain u where u: "username = Some u" "u \<noteq> []" "known_user db u"
    by (auto simp: authenticate_None_iff)
  from assms a have v: "validate_dates expiration_date start_date = None"
    by (auto simp: update_announcement_def split: option.splits)
  from assms a v obtain obj_id where oid: "ObjectId announcement_id = Some obj_id"
    by (auto simp: update_announcement_def split: option.splits)
  let ?q = "Eq ''_id'' (BObjectId obj_id)"
  let ?c = "snd (update_one ?q ?upd (announcements_collection db))"
  from assms a v oid have n: "fst (update_one ?q ?upd (announcements_collection db)) \<noteq> 0"
    by (auto simp: update_announcement_def Let_def split: prod.splits if_splits)
  from update_one_find_one [OF n] obtain r where
    r: "r \<in> set (announcements_collection db)" "fst r = BObjectId obj_id"
       "find_one ?q ?c = Some (set_fields ?upd r)"
    by blast
  from assms a v oid n r(3) have "db' = db\<lparr>announcements_collection := ?c\<rparr>"
    and "d = stringify_id (set_fields ?upd r)"
    by (auto simp: update_announcement_def Let_def split: prod.splits if_splits)
  with u v oid r show ?thesis
    using that [of u obj_id r] by (simp add: validate_dates_None_iff)
qed

lemma known_jdoe2: "known_user db2 ''jdoe''"
  by (simp add: known_user_def db2_def)

lemma fromisoformat_examples:
  "fromisoformat ''2024-05-01'' =
     Some \<lparr>dt_date = (2024, 5, 1), dt_time = (0, 0, 0, 0), dt_utcoffset = None\<rparr>"
  "fromisoformat ''2024-05-20'' =
     Some \<lparr>dt_date = (2024, 5, 20), dt_time = (0, 0, 0, 0), dt_utcoffset = None\<rparr>"
  "fromisoformat ''2024-06-03'' =
     Some \<lparr>dt_date = (2024, 6, 3), dt_time = (0, 0, 0, 0), dt_utcoffset = None\<rparr>"
  by (simp_all add: fromiso_defs)

lemma create_first_db0:
  "create_announcement e0 db0 ''Exam Friday'' ''2024-06-01'' (Some ''jdoe'') (Some ''2024-05-01'') =
     (Inr [(''message'', BString ''Exam Friday''),
           (''start_date'', BString ''2024-05-01''),
           (''expiration_date'', BString ''2024-06-01''),
           (''created_by'', BString ''jdoe''),
           (''created_at'', BString ''2024-05-15T09:00:00.000001''),
           (''_id'', BString ''65666768696a6b6c6d6e6fff'')], db1)"
proof -
  have a: "authenticate db0 (Some ''jdoe'') = None"
    by (simp add: authenticate_None_iff known_jdoe)
  have v: "validate_dates ''2024-06-01'' (Some ''2024-05-01'') = None"
    by (simp add: validate_dates_def fromisoformat_june fromisoformat_examples date_of_def)
  show ?thesis
    using a v
    by (simp add: create_announcement_def insert_one_def opt_string_def e0_def db0_def db1_def
        hexlify_e0)
qed

lemma update_first_db2:
  "update_announcement e1 db2 ''65666768696a6b6c6d6e6fff'' ''Exam Monday'' ''2024-06-03''
       (Some ''jdoe'') (Some ''2024-05-20'') =
     (Inr [(''_id'', BString ''65666768696a6b6c6d6e6fff''),
           (''message'', BString ''Exam Monday''),
           (''start_date'', BString ''2024-05-20''),
           (''expiration_date'', BString ''2024-06-03''),
           (''created_by'', BString ''jdoe''),
           (''created_at'', BString ''2024-05-15T09:00:00.000001''),
           (''updated_by'', BString ''jdoe''),
           (''updated_at'', BString ''2024-05-16T09:00:00'')], db3)"
proof -
  have a: "authenticate db2 (Some ''jdoe'') = None"
    by (simp add: authenticate_None_iff known_jdoe2)
  have v: "validate_dates ''2024-06-03'' (Some ''2024-05-20'') = None"
    by (simp add: validate_dates_def fromisoformat_examples date_of_def)
  show ?thesis
    using a v
    by (simp add: update_announcement_def ObjectId_first opt_string_def e1_def db2_def db3_def
        field_value_def set_fields_def find_one_def find_coll_def stringify_id_def doc_of_def
        hexlify_e0 Let_def)
qed

text \<open>
  C10: a successful update leaves the \<^verbatim>\<open>created_by\<close> and \<^verbatim>\<open>created_at\<close> of the record it
  changes as they were, and leaves every record under another identifier unchanged; the
  records keep their places and identifiers, and the teachers are not touched.
\<close>

theorem update_frame:
  assumes "update_announcement e db announcement_id message expiration_date username start_date
             = (Inr d, db')"
    and "ObjectId announcement_id = Some obj_id"
  shows "teachers_collection db' = teachers_collection db \<and>
         list_all2 (update_keeps obj_id)
           (announcements_collection db) (announcements_collection db')"
proof -
  from assms(1) obtain obj where "ObjectId announcement_id = Some obj"
    and "db' = db\<lparr>announcements_collection :=
           snd (update_one (Eq ''_id'' (BObjectId obj))
                  [(''message'', BString message),
                   (''start_date'', opt_string start_date),
                   (''expiration_date'', BString expiration_date),
                   (''updated_by'', opt_string username),
                   (''updated_at'', BString (utcnow_isoformat e))]
                  (announcements_collection db))\<rparr>"
    by (rule update_announcement_Inr)
  with assms(2) show ?thesis
    by (simp add: update_one_keeps)
qed

theorem update_frame_witness:
  "update_announcement e1 db2 ''65666768696a6b6c6d6e6fff'' ''Exam Monday'' ''2024-06-03''
       (Some ''jdoe'') (Some ''2024-05-20'') =
     (Inr [(''_id'', BString ''65666768696a6b6c6d6e6fff''),
           (''message'', BString ''Exam Monday''),
           (''start_date'', BString ''2024-05-20''),
           (''expiration_date'', BString ''2024-06-03''),
           (''created_by'', BString ''jdoe''),
           (''created_at'', BString ''2024-05-15T09:00:00.000001''),
           (''updated_by'', BString ''jdoe''),
           (''updated_at'', BString ''2024-05-16T09:00:00'')], db3) \<and>
   ObjectId ''65666768696a6b6c6d6e6fff'' =
     Some [101, 102, 103, 104, 105, 106, 107, 108, 109, 110, 111, 255] \<and>
   teachers_collection db3 = teachers_collection db2 \<and>
   list_all2 (update_keeps [101, 102, 103, 104, 105, 106, 107, 108, 109, 110, 111, 255])
     (announcements_collection db2) (announcements_collection db3)"
  using update_frame [OF update_first_db2 ObjectId_first] update_first_db2 ObjectId_first
  by simp

subsection \<open>The date window of a written record\<close>

lemma valid_dates_window:
  assumes "valid_dates expiration_date start_date"
    and "map_of fs ''start_date'' = Some (opt_string start_date)"
    and "map_of fs ''expiration_date'' = Some (BString expiration_date)"
  shows "window_in_order fs"
  using assms
  by (auto simp: valid_dates_def window_in_order_def opt_string_def split: option.splits)

lemma create_announcement_Inr:
  assumes "create_announcement e db message expiration_date username start_date = (Inr d, db')"
  obtains u where
    "username = Some u" and "u \<noteq> []" and "known_user db u"
    and "valid_dates expiration_date start_date"
    and "BObjectId (new_object_id e) \<notin> set (map fst (announcements_collection db))"
    and "db' = db\<lparr>announcements_collection := announcements_collection db @
           [(BObjectId (new_object_id e),
             [(''message'', BString message),
              (''start_date'', opt_string start_date),
              (''expiration_date'', BString expiration_date),
              (''created_by'', BString u),
              (''created_at'', BString (utcnow_isoformat e))])]\<rparr>"
    and "d = [(''message'', BString message),
              (''start_date'', opt_string start_date),
              (''expiration_date'', BString expiration_date),
              (''created_by'', BString u),
              (''created_at'', BString (utcnow_isoformat e)),
              (''_id'', BString (hexlify (new_object_id e)))]"
proof -
  from assms have a: "authenticate db username = None"
    by (auto simp: create_announcement_def split: option.splits)
  then obtain u where u: "username = Some u" "u \<noteq> []" "known_user db u"
    by (auto simp: authenticate_None_iff)
  from assms a have v: "validate_dates expiration_date start_date = None"
    by (auto simp: create_announcement_def split: option.splits)
  from assms a v u(1) have
    "BObjectId (new_object_id e) \<notin> set (map fst (announcements_collection db))"
    and "db' = db\<lparr>announcements_collection := announcements_collection db @
           [(BObjectId (new_object_id e),
             [(''message'', BString message),
              (''start_date'', opt_string start_date),
              (''expiration_date'', BString expiration_date),
              (''created_by'', BString u),
              (''created_at'', BString (utcnow_isoformat e))])]\<rparr>"
    and "d = [(''message'', BString message),
              (''start_date'', opt_string start_date),
              (''expiration_date'', BString expiration_date),
              (''created_by'', BString u),
              (''created_at'', BString (utcnow_isoformat e)),
              (''_id'', BString (hexlify (new_object_id e)))]"
    by (auto simp: create_announcement_def insert_one_def opt_string_def Let_def
        split: if_splits)
  with u v show ?thesis
    using that [of u] by (simp add: validate_dates_None_iff)
qed

text \<open>
  C8, as the code has it: the record a successful \<^verbatim>\<open>create\<close> appends to the store, and the
  record under the identifier after a successful \<^verbatim>\<open>update\<close>, have their date window in
  order in this sense: a stored start date that is a string and not empty, and the
  expiration date, are both read by the parser, and the start's calendar date is no later
  than the expiration's. Times of day are not compared, and an empty start date is stored
  as it is.
\<close>

theorem written_window_in_order:
  "(create_announcement e db message expiration_date username start_date = (Inr d, db') \<longrightarrow>
      (\<exists>fs. announcements_collection db' =
               announcements_collection db @ [(BObjectId (new_object_id e), fs)] \<and>
            window_in_order fs)) \<and>
   (update_announcement e db announcement_id message expiration_date username start_date
        = (Inr d2, db2') \<and>
    ObjectId announcement_id = Some obj_id \<longrightarrow>
      (\<exists>r. find_one (Eq ''_id'' (BObjectId obj_id)) (announcements_collection db2') = Some r \<and>
           window_in_order (snd r)))"
proof (intro conjI impI)
  assume "create_announcement e db message expiration_date username start_date = (Inr d, db')"
  then obtain u where v: "valid_dates expiration_date start_date"
    and d: "db' = db\<lparr>announcements_collection := announcements_collection db @
           [(BObjectId (new_object_id e),
             [(''message'', BString message),
              (''start_date'', opt_string start_date),
              (''expiration_date'', BString expiration_date),
              (''created_by'', BString u),
              (''created_at'', BString (utcnow_isoformat e))])]\<rparr>"
    by (rule create_announcement_Inr)
  from v have "window_in_order
             [(''message'', BString message),
              (''start_date'', opt_string start_date),
              (''expiration_date'', BString expiration_date),
              (''created_by'', BString u),
              (''created_at'', BString (utcnow_isoformat e))]"
    by (rule valid_dates_window) simp_all
  with d show "\<exists>fs. announcements_collection db' =
               announcements_collection db @ [(BObjectId (new_object_id e), fs)] \<and>
            window_in_order fs"
    by simp
next
  let ?upd = "[(''message'', BString message),
                   (''start_date'', opt_string start_date),
                   (''expiration_date'', BString expiration_date),
                   (''updated_by'', opt_string username),
                   (''updated_at'', BString (utcnow_isoformat e))]"
  assume "update_announcement e db announcement_id message expiration_date username start_date
        = (Inr d2, db2') \<and> ObjectId announcement_id = Some obj_id"
  then have upd: "update_announcement e db announcement_id message expiration_date username
      start_date = (Inr d2, db2')" and o: "ObjectId announcement_id = Some obj_id"
    by simp_all
  from upd obtain obj r where v: "valid_dates expiration_date start_date"
    and o': "ObjectId announcement_id = Some obj"
    and f: "find_one (Eq ''_id'' (BObjectId obj)) (announcements_collection db2') =
           Some (set_fields ?upd r)"
    by (rule update_announcement_Inr)
  from v have "window_in_order (snd (set_fields ?upd r))"
    by (rule valid_dates_window) (simp_all add: set_fields_sets)
  with f o o' show "\<exists>r. find_one (Eq ''_id'' (BObjectId obj_id)) (announcements_collection db2')
      = Some r \<and> window_in_order (snd r)"
    by auto
qed

theorem written_window_in_order_witness:
  "create_announcement e0 db0 ''Exam Friday'' ''2024-06-01'' (Some ''jdoe'') (Some ''2024-05-01'') =
     (Inr [(''message'', BString ''Exam Friday''),
           (''start_date'', BString ''2024-05-01''),
           (''expiration_date'', BString ''2024-06-01''),
           (''created_by'', BString ''jdoe''),
           (''created_at'', BString ''2024-05-15T09:00:00.000001''),
           (''_id'', BString ''65666768696a6b6c6d6e6fff'')], db1) \<and>
   window_in_order (snd (last (announcements_collection db1))) \<and>
   update_announcement e1 db2 ''65666768696a6b6c6d6e6fff'' ''Exam Monday'' ''2024-06-03''
       (Some ''jdoe'') (Some ''2024-05-20'') =
     (Inr [(''_id'', BString ''65666768696a6b6c6d6e6fff''),
           (''message'', BString ''Exam Monday''),
           (''start_date'', BString ''2024-05-20''),
           (''expiration_date'', BString ''2024-06-03''),
           (''created_by'', BString ''jdoe''),
           (''created_at'', BString ''2024-05-15T09:00:00.000001''),
           (''updated_by'', BString ''jdoe''),
           (''updated_at'', BString ''2024-05-16T09:00:00'')], db3) \<and>
   ObjectId ''65666768696a6b6c6d6e6fff'' =
     Some [101, 102, 103, 104, 105, 106, 107, 108, 109, 110, 111, 255] \<and>
   window_in_order (snd (hd (announcements_collection db3)))"
proof -
  from written_window_in_order [where e = e0 and db = db0 and message = "''Exam Friday''"
      and expiration_date = "''2024-06-01''" and username = "Some ''jdoe''"
      and start_date = "Some ''2024-05-01''" and db' = db1] create_first_db0
  have "\<exists>fs. announcements_collection db1 =
               announcements_collection db0 @ [(BObjectId (new_object_id e0), fs)] \<and>
            window_in_order fs"
    by blast
  then have 1: "window_in_order (snd (last (announcements_collection db1)))"
    by auto
  from written_window_in_order [where e = e1 and db = db2 and message = "''Exam Monday''"
      and expiration_date = "''2024-06-03''" and username = "Some ''jdoe''"
      and start_date = "Some ''2024-05-20''" and db2' = db3
      and announcement_id = "''65666768696a6b6c6d6e6fff''"]
    update_first_db2 ObjectId_first
  have "\<exists>r. find_one (Eq ''_id'' (BObjectId [101, 102, 103, 104, 105, 106, 107, 108, 109, 110, 111, 255]))
          (announcements_collection db3) = Some r \<and> window_in_order (snd r)"
    by blast
  then have 2: "window_in_order (snd (hd (announcements_collection db3)))"
    by (simp add: find_one_def find_coll_def db3_def field_value_id)
  from 1 2 create_first_db0 update_first_db2 ObjectId_first show ?thesis
    by simp
qed

text \<open>
  As it was stated, for the start date and the expiration date of the record as stored, C8
  fails: \<^verbatim>\<open>create\<close> writes a record whose start date is later on the day of its expiration
  date, after it as a string and as a date and time. It also writes an empty start date,
  which is no date.
\<close>

theorem late_start_written:
  "create_announcement e0 db0 ''Exam Friday'' ''2024-06-01'' (Some ''jdoe'')
       (Some ''2024-06-01T23:59:59'') =
     (Inr [(''message'', BString ''Exam Friday''),
           (''start_date'', BString ''2024-06-01T23:59:59''),
           (''expiration_date'', BString ''2024-06-01''),
           (''created_by'', BString ''jdoe''),
           (''created_at'', BString ''2024-05-15T09:00:00.000001''),
           (''_id'', BString ''65666768696a6b6c6d6e6fff'')],
      db0\<lparr>announcements_collection :=
            [(BObjectId [101, 102, 103, 104, 105, 106, 107, 108, 109, 110, 111, 255],
              [(''message'', BString ''Exam Friday''),
               (''start_date'', BString ''2024-06-01T23:59:59''),
               (''expiration_date'', BString ''2024-06-01''),
               (''created_by'', BString ''jdoe''),
               (''created_at'', BString ''2024-05-15T09:00:00.000001'')])]\<rparr>) \<and>
   ''2024-06-01T23:59:59'' > ''2024-06-01'' \<and>
   fromisoformat ''2024-06-01T23:59:59'' =
     Some \<lparr>dt_date = (2024, 6, 1), dt_time = (23, 59, 59, 0), dt_utcoffset = None\<rparr> \<and>
   fromisoformat ''2024-06-01'' =
     Some \<lparr>dt_date = (2024, 6, 1), dt_time = (0, 0, 0, 0), dt_utcoffset = None\<rparr> \<and>
   ((2024, 6, 1), (23, 59, 59, 0)) > (((2024, 6, 1), (0, 0, 0, 0)) :: date \<times> int \<times> int \<times> int \<times> int) \<and>
   create_announcement e0 db0 ''Exam Friday'' ''2024-06-01'' (Some ''jdoe'') (Some '''') =
     (Inr [(''message'', BString ''Exam Friday''),
           (''start_date'', BString ''''),
           (''expiration_date'', BString ''2024-06-01''),
           (''created_by'', BString ''jdoe''),
           (''created_at'', BString ''2024-05-15T09:00:00.000001''),
           (''_id'', BString ''65666768696a6b6c6d6e6fff'')],
      db0\<lparr>announcements_collection :=
            [(BObjectId [101, 102, 103, 104, 105, 106, 107, 108, 109, 110, 111, 255],
              [(''message'', BString ''Exam Friday''),
               (''start_date'', BString ''''),
               (''expiration_date'', BString ''2024-06-01''),
               (''created_by'', BString ''jdoe''),
               (''created_at'', BString ''2024-05-15T09:00:00.000001'')])]\<rparr>) \<and>
   fromisoformat '''' = None"
proof -
  have 3: "''2024-06-01T23:59:59'' > ''2024-06-01''"
    by simp
  have 4: "((2024, 6, 1), (23, 59, 59, 0)) >
      (((2024, 6, 1), (0, 0, 0, 0)) :: date \<times> int \<times> int \<times> int \<times> int)"
    by simp
  from 3 4 create_late_start create_empty_start fromisoformat_late fromisoformat_june
    fromisoformat_Nil
  show ?thesis
    by (intro conjI)
qed

text \<open>
  The filter of \<^verbatim>\<open>list_active\<close> compares the stored strings, so that record is active on no
  day.
\<close>

lemma late_never_active:
  "get_active_announcements e
     (db0\<lparr>announcements_collection :=
            [(BObjectId [101, 102, 103, 104, 105, 106, 107, 108, 109, 110, 111, 255],
              [(''message'', BString ''Exam Friday''),
               (''start_date'', BString ''2024-06-01T23:59:59''),
               (''expiration_date'', BString ''2024-06-01''),
               (''created_by'', BString ''jdoe''),
               (''created_at'', BString ''2024-05-15T09:00:00.000001'')])]\<rparr>) = []"
proof -
  have "\<not> (''2024-06-01T23:59:59'' \<le> t \<and> t \<le> ''2024-06-01'')" for t :: string
  proof
    assume "''2024-06-01T23:59:59'' \<le> t \<and> t \<le> ''2024-06-01''"
    then have "''2024-06-01T23:59:59'' \<le> ''2024-06-01''"
      by (meson order_trans)
    then show False by simp
  qed
  then show ?thesis
    by (auto simp: get_active_announcements_def Let_def find_coll_def sort_desc_def
        doc_of_def field_value_def db0_def)
qed

subsection \<open>The identifier in a response\<close>

lemma id_is_string_stringify_id: "id_is_string (stringify_id r)"
  by (simp add: id_is_string_def stringify_id_def update_conv')

lemma field_value_stringify_id:
  "f \<noteq> ''_id'' \<Longrightarrow> field_value (stringify_id r) f = field_value (doc_of r) f"
  by (simp add: field_value_def stringify_id_def update_conv')

lemma isoformat_e1: "isoformat (today e1) = ''2024-05-16''"
  by (simp add: isoformat_def digit_char_def e1_def)

lemma get_active_db3:
  "get_active_announcements e1 db3 =
     [[(''_id'', BString ''0102030405060708090a0b0c''),
       (''message'', BString ''Sports day''),
       (''start_date'', BString ''2024-05-10''),
       (''expiration_date'', BString ''2024-05-20''),
       (''created_by'', BString ''jdoe''),
       (''created_at'', BString ''2024-05-16T09:00:00'')]]"
  by (simp add: get_active_announcements_def isoformat_e1 db3_def find_coll_def sort_desc_def
      doc_of_def field_value_def stringify_id_def hexlify_def)

lemma get_all_db3:
  "get_all_announcements db3 (Some ''jdoe'') =
     Inr [[(''_id'', BString ''0102030405060708090a0b0c''),
           (''message'', BString ''Sports day''),
           (''start_date'', BString ''2024-05-10''),
           (''expiration_date'', BString ''2024-05-20''),
           (''created_by'', BString ''jdoe''),
           (''created_at'', BString ''2024-05-16T09:00:00'')],
          [(''_id'', BString ''65666768696a6b6c6d6e6fff''),
           (''message'', BString ''Exam Monday''),
           (''start_date'', BString ''2024-05-20''),
           (''expiration_date'', BString ''2024-06-03''),
           (''created_by'', BString ''jdoe''),
           (''created_at'', BString ''2024-05-15T09:00:00.000001''),
           (''updated_by'', BString ''jdoe''),
           (''updated_at'', BString ''2024-05-16T09:00:00'')]]"
proof -
  have "known_user db3 ''jdoe''"
    by (simp add: known_user_def db3_def)
  then have "authenticate db3 (Some ''jdoe'') = None"
    by (simp add: authenticate_None_iff)
  then show ?thesis
    by (simp add: get_all_announcements_def db3_def find_coll_def sort_desc_def
      doc_of_def field_value_def stringify_id_def hexlify_def)
qed

text \<open>
  C9: in every successful response of \<^verbatim>\<open>list_active\<close>, \<^verbatim>\<open>list_all\<close>, \<^verbatim>\<open>create\<close> and
  \<^verbatim>\<open>update\<close>, the identifier field \<^verbatim>\<open>_id\<close> of each announcement returned is a string.
\<close>

theorem identifier_is_string:
  "list_all id_is_string (get_active_announcements e db) \<and>
   (get_all_announcements db username = Inr ds \<longrightarrow> list_all id_is_string ds) \<and>
   (create_announcement e db message expiration_date username start_date = (Inr d, db') \<longrightarrow>
      id_is_string d) \<and>
   (update_announcement e db announcement_id message expiration_date username start_date
      = (Inr d2, db2') \<longrightarrow> id_is_string d2)"
proof (intro conjI impI)
  show "list_all id_is_string (get_active_announcements e db)"
    by (simp add: get_active_announcements_def Let_def list_all_iff id_is_string_stringify_id)
next
  assume "get_all_announcements db username = Inr ds"
  then have "\<exists>rs. ds = map stringify_id rs"
    by (auto simp: get_all_announcements_def split: option.splits)
  then show "list_all id_is_string ds"
    by (auto simp: list_all_iff id_is_string_stringify_id)
next
  assume "create_announcement e db message expiration_date username start_date = (Inr d, db')"
  then obtain u where "d = [(''message'', BString message),
              (''start_date'', opt_string start_date),
              (''expiration_date'', BString expiration_date),
              (''created_by'', BString u),
              (''created_at'', BString (utcnow_isoformat e)),
              (''_id'', BString (hexlify (new_object_id e)))]"
    by (rule create_announcement_Inr)
  then show "id_is_string d"
    by (simp add: id_is_string_def)
next
  assume "update_announcement e db announcement_id message expiration_date username start_date
      = (Inr d2, db2')"
  then obtain r upd where "d2 = stringify_id (set_fields upd r)"
    by (rule update_announcement_Inr)
  then show "id_is_string d2"
    by (simp add: id_is_string_stringify_id)
qed

theorem identifier_is_string_witness:
  "list_all id_is_string (get_active_announcements e1 db3) \<and>
   get_all_announcements db3 (Some ''jdoe'') =
     Inr [[(''_id'', BString ''0102030405060708090a0b0c''),
           (''message'', BString ''Sports day''),
           (''start_date'', BString ''2024-05-10''),
           (''expiration_date'', BString ''2024-05-20''),
           (''created_by'', BString ''jdoe''),
           (''created_at'', BString ''2024-05-16T09:00:00'')],
          [(''_id'', BString ''65666768696a6b6c6d6e6fff''),
           (''message'', BString ''Exam Monday''),
           (''start_date'', BString ''2024-05-20''),
           (''expiration_date'', BString ''2024-06-03''),
           (''created_by'', BString ''jdoe''),
           (''created_at'', BString ''2024-05-15T09:00:00.000001''),
           (''updated_by'', BString ''jdoe''),
           (''updated_at'', BString ''2024-05-16T09:00:00'')]] \<and>
   list_all id_is_string
         [[(''_id'', BString ''0102030405060708090a0b0c''),
           (''message'', BString ''Sports day''),
           (''start_date'', BString ''2024-05-10''),
           (''expiration_date'', BString ''2024-05-20''),
           (''created_by'', BString ''jdoe''),
           (''created_at'', BString ''2024-05-16T09:00:00'')],
          [(''_id'', BString ''65666768696a6b6c6d6e6fff''),
           (''message'', BString ''Exam Monday''),
           (''start_date'', BString ''2024-05-20''),
           (''expiration_date'', BString ''2024-06-03''),
           (''created_by'', BString ''jdoe''),
           (''created_at'', BString ''2024-05-15T09:00:00.000001''),
           (''updated_by'', BString ''jdoe''),
           (''updated_at'', BString ''2024-05-16T09:00:00'')]] \<and>
   create_announcement e0 db0 ''Exam Friday'' ''2024-06-01'' (Some ''jdoe'') (Some ''2024-05-01'') =
     (Inr [(''message'', BString ''Exam Friday''),
           (''start_date'', BString ''2024-05-01''),
           (''expiration_date'', BString ''2024-06-01''),
           (''created_by'', BString ''jdoe''),
           (''created_at'', BString ''2024-05-15T09:00:00.000001''),
           (''_id'', BString ''65666768696a6b6c6d6e6fff'')], db1) \<and>
   id_is_string
          [(''message'', BString ''Exam Friday''),
           (''start_date'', BString ''2024-05-01''),
           (''expiration_date'', BString ''2024-06-01''),
           (''created_by'', BString ''jdoe''),
           (''created_at'', BString ''2024-05-15T09:00:00.000001''),
           (''_id'', BString ''65666768696a6b6c6d6e6fff'')] \<and>
   update_announcement e1 db2 ''65666768696a6b6c6d6e6fff'' ''Exam Monday'' ''2024-06-03''
       (Some ''jdoe'') (Some ''2024-05-20'') =
     (Inr [(''_id'', BString ''65666768696a6b6c6d6e6fff''),
           (''message'', BString ''Exam Monday''),
           (''start_date'', BString ''2024-05-20''),
           (''expiration_date'', BString ''2024-06-03''),
           (''created_by'', BString ''jdoe''),
           (''created_at'', BString ''2024-05-15T09:00:00.000001''),
           (''updated_by'', BString ''jdoe''),
           (''updated_at'', BString ''2024-05-16T09:00:00'')], db3) \<and>
   id_is_string
          [(''_id'', BString ''65666768696a6b6c6d6e6fff''),
           (''message'', BString ''Exam Monday''),
           (''start_date'', BString ''2024-05-20''),
           (''expiration_date'', BString ''2024-06-03''),
           (''created_by'', BString ''jdoe''),
           (''created_at'', BString ''2024-05-15T09:00:00.000001''),
           (''updated_by'', BString ''jdoe''),
           (''updated_at'', BString ''2024-05-16T09:00:00'')]"
proof -
  from identifier_is_string [where e = e1 and db = db3 and username = "Some ''jdoe''"]
    get_all_db3
  have 1: "list_all id_is_string (get_active_announcements e1 db3)"
    and 2: "list_all id_is_string
         [[(''_id'', BString ''0102030405060708090a0b0c''),
           (''message'', BString ''Sports day''),
           (''start_date'', BString ''2024-05-10''),
           (''expiration_date'', BString ''2024-05-20''),
           (''created_by'', BString ''jdoe''),
           (''created_at'', BString ''2024-05-16T09:00:00'')],
          [(''_id'', BString ''65666768696a6b6c6d6e6fff''),
           (''message'', BString ''Exam Monday''),
           (''start_date'', BString ''2024-05-20''),
           (''expiration_date'', BString ''2024-06-03''),
           (''created_by'', BString ''jdoe''),
           (''created_at'', BString ''2024-05-15T09:00:00.000001''),
           (''updated_by'', BString ''jdoe''),
           (''updated_at'', BString ''2024-05-16T09:00:00'')]]"
    by blast+
  from identifier_is_string [where e = e0 and db = db0 and username = "Some ''jdoe''"
      and message = "''Exam Friday''" and expiration_date = "''2024-06-01''"
      and start_date = "Some ''2024-05-01''" and db' = db1] create_first_db0
  have 3: "id_is_string
          [(''message'', BString ''Exam Friday''),
           (''start_date'', BString ''2024-05-01''),
           (''expiration_date'', BString ''2024-06-01''),
           (''created_by'', BString ''jdoe''),
           (''created_at'', BString ''2024-05-15T09:00:00.000001''),
           (''_id'', BString ''65666768696a6b6c6d6e6fff'')]"
    by blast
  from identifier_is_string [where e = e1 and db = db2 and username = "Some ''jdoe''"
      and message = "''Exam Monday''" and expiration_date = "''2024-06-03''"
      and start_date = "Some ''2024-05-20''" and db2' = db3
      and announcement_id = "''65666768696a6b6c6d6e6fff''"] update_first_db2
  have 4: "id_is_string
          [(''_id'', BString ''65666768696a6b6c6d6e6fff''),
           (''message'', BString ''Exam Monday''),
           (''start_date'', BString ''2024-05-20''),
           (''expiration_date'', BString ''2024-06-03''),
           (''created_by'', BString ''jdoe''),
           (''created_at'', BString ''2024-05-15T09:00:00.000001''),
           (''updated_by'', BString ''jdoe''),
           (''updated_at'', BString ''2024-05-16T09:00:00'')]"
    by blast
  from 1 2 3 4 get_all_db3 create_first_db0 update_first_db2 show ?thesis
    by (intro conjI)
qed

subsection \<open>The order of the lists\<close>

lemma bson_le_total: "bson_le v w \<or> bson_le w v"
  by (cases v; cases w) auto

lemma bson_le_trans: "bson_le u v \<Longrightarrow> bson_le v w \<Longrightarrow> bson_le u w"
  by (cases u; cases v; cases w) auto

lemma set_insert_desc: "set (insert_desc k r rs) = insert r (set rs)"
  by (induction rs) auto

lemma sorted_insert_desc:
  assumes "sorted_wrt (\<lambda>a b. bson_le (field_value (doc_of b) k) (field_value (doc_of a) k)) rs"
  shows "sorted_wrt (\<lambda>a b. bson_le (field_value (doc_of b) k) (field_value (doc_of a) k))
           (insert_desc k r rs)"
  using assms
proof (induction rs)
  case Nil
  then show ?case by simp
next
  case (Cons x xs)
  show ?case
  proof (cases "bson_le (field_value (doc_of x) k) (field_value (doc_of r) k)")
    case True
    with Cons.prems show ?thesis
      by (auto intro: bson_le_trans)
  next
    case False
    then have "bson_le (field_value (doc_of r) k) (field_value (doc_of x) k)"
      using bson_le_total by blast
    with False Cons show ?thesis
      by (auto simp: set_insert_desc)
  qed
qed

lemma sorted_sort_desc:
  "sorted_wrt (\<lambda>a b. bson_le (field_value (doc_of b) k) (field_value (doc_of a) k))
     (sort_desc k rs)"
  unfolding sort_desc_def
  by (induction rs) (simp_all add: sorted_insert_desc)

lemma set_sort_desc: "set (sort_desc k rs) = set rs"
  unfolding sort_desc_def
  by (induction rs) (simp_all add: set_insert_desc)

lemma newest_first_stringify:
  "newest_first (map stringify_id (sort_desc ''created_at'' rs))"
  using sorted_sort_desc [of "''created_at''" rs]
  by (simp add: newest_first_def sorted_wrt_map field_value_stringify_id)

text \<open>
  C6: the list \<^verbatim>\<open>list_active\<close> returns and every list \<^verbatim>\<open>list_all\<close> returns are ordered by
  the records' \<^verbatim>\<open>created_at\<close>, descending: each record's creation time is at least that of
  every record after it.
\<close>

theorem lists_newest_first:
  "newest_first (get_active_announcements e db) \<and>
   (get_all_announcements db username = Inr ds \<longrightarrow> newest_first ds)"
proof (intro conjI impI)
  show "newest_first (get_active_announcements e db)"
    by (simp add: get_active_announcements_def Let_def newest_first_stringify)
next
  assume "get_all_announcements db username = Inr ds"
  then have "\<exists>rs. ds = map stringify_id (sort_desc ''created_at'' rs)"
    by (auto simp: get_all_announcements_def split: option.splits)
  then show "newest_first ds"
    by (auto simp: newest_first_stringify)
qed

theorem lists_newest_first_witness:
  "newest_first (get_active_announcements e1 db3) \<and>
   get_all_announcements db3 (Some ''jdoe'') =
     Inr [[(''_id'', BString ''0102030405060708090a0b0c''),
           (''message'', BString ''Sports day''),
           (''start_date'', BString ''2024-05-10''),
           (''expiration_date'', BString ''2024-05-20''),
           (''created_by'', BString ''jdoe''),
           (''created_at'', BString ''2024-05-16T09:00:00'')],
          [(''_id'', BString ''65666768696a6b6c6d6e6fff''),
           (''message'', BString ''Exam Monday''),
           (''start_date'', BString ''2024-05-20''),
           (''expiration_date'', BString ''2024-06-03''),
           (''created_by'', BString ''jdoe''),
           (''created_at'', BString ''2024-05-15T09:00:00.000001''),
           (''updated_by'', BString ''jdoe''),
           (''updated_at'', BString ''2024-05-16T09:00:00'')]] \<and>
   newest_first
         [[(''_id'', BString ''0102030405060708090a0b0c''),
           (''message'', BString ''Sports day''),
           (''start_date'', BString ''2024-05-10''),
           (''expiration_date'', BString ''2024-05-20''),
           (''created_by'', BString ''jdoe''),
           (''created_at'', BString ''2024-05-16T09:00:00'')],
          [(''_id'', BString ''65666768696a6b6c6d6e6fff''),
           (''message'', BString ''Exam Monday''),
           (''start_date'', BString ''2024-05-20''),
           (''expiration_date'', BString ''2024-06-03''),
           (''created_by'', BString ''jdoe''),
           (''created_at'', BString ''2024-05-15T09:00:00.000001''),
           (''updated_by'', BString ''jdoe''),
           (''updated_at'', BString ''2024-05-16T09:00:00'')]]"
  using lists_newest_first [where e = e1 and db = db3 and username = "Some ''jdoe''"]
    get_all_db3
  by blast

subsection \<open>Announcements created without a start date\<close>

text \<open>
  \<^verbatim>\<open>create\<close> stores an omitted start date as null. The filter of \<^verbatim>\<open>list_active\<close> accepts a
  record whose \<^verbatim>\<open>start_date\<close> field is missing or is a string up to today; a field that is
  there with the value null is neither, so no record with a null start date is ever listed.
\<close>

lemma active_start_date_not_null:
  "d \<in> set (get_active_announcements e db) \<Longrightarrow> map_of d ''start_date'' \<noteq> Some BNull"
proof -
  assume "d \<in> set (get_active_announcements e db)"
  then obtain r where r: "d = stringify_id r"
    and m: "map_of (doc_of r) ''start_date'' = None \<or>
            canonical_type (field_value (doc_of r) ''start_date'') = 1"
    by (auto simp: get_active_announcements_def Let_def set_sort_desc find_coll_def)
  have "map_of d ''start_date'' = map_of (doc_of r) ''start_date''"
    by (simp add: r stringify_id_def update_conv')
  with m show ?thesis
    by (auto simp: field_value_def)
qed

lemma isoformat_e0: "isoformat (today e0) = ''2024-05-15''"
  by (simp add: isoformat_def digit_char_def e0_def)

text \<open>
  C1 has \<^verbatim>\<open>list_active\<close> include every announcement whose start date is absent or not after
  today and whose expiration date is not before today, announcements created without a
  start date in particular. The code does not: on 2024-05-15 the announcement created
  without a start date and expiring on 2024-06-01 is stored and is not listed.
\<close>

theorem created_without_start_date_not_active:
  "create_announcement e0 db0 ''Exam Friday'' ''2024-06-01'' (Some ''jdoe'') None =
     (Inr [(''message'', BString ''Exam Friday''),
           (''start_date'', BNull),
           (''expiration_date'', BString ''2024-06-01''),
           (''created_by'', BString ''jdoe''),
           (''created_at'', BString ''2024-05-15T09:00:00.000001''),
           (''_id'', BString ''65666768696a6b6c6d6e6fff'')],
      db0\<lparr>announcements_collection :=
            [(BObjectId [101, 102, 103, 104, 105, 106, 107, 108, 109, 110, 111, 255],
              [(''message'', BString ''Exam Friday''),
               (''start_date'', BNull),
               (''expiration_date'', BString ''2024-06-01''),
               (''created_by'', BString ''jdoe''),
               (''created_at'', BString ''2024-05-15T09:00:00.000001'')])]\<rparr>) \<and>
   isoformat (today e0) \<le> ''2024-06-01'' \<and>
   get_active_announcements e0
     (snd (create_announcement e0 db0 ''Exam Friday'' ''2024-06-01'' (Some ''jdoe'') None)) = []"
proof -
  have a: "authenticate db0 (Some ''jdoe'') = None"
    by (simp add: authenticate_None_iff known_jdoe)
  have v: "validate_dates ''2024-06-01'' None = None"
    by (simp add: validate_dates_def fromisoformat_june)
  have c: "create_announcement e0 db0 ''Exam Friday'' ''2024-06-01'' (Some ''jdoe'') None =
     (Inr [(''message'', BString ''Exam Friday''),
           (''start_date'', BNull),
           (''expiration_date'', BString ''2024-06-01''),
           (''created_by'', BString ''jdoe''),
           (''created_at'', BString ''2024-05-15T09:00:00.000001''),
           (''_id'', BString ''65666768696a6b6c6d6e6fff'')],
      db0\<lparr>announcements_collection :=
            [(BObjectId [101, 102, 103, 104, 105, 106, 107, 108, 109, 110, 111, 255],
              [(''message'', BString ''Exam Friday''),
               (''start_date'', BNull),
               (''expiration_date'', BString ''2024-06-01''),
               (''created_by'', BString ''jdoe''),
               (''created_at'', BString ''2024-05-15T09:00:00.000001'')])]\<rparr>)"
    using a v
    by (simp add: create_announcement_def insert_one_def opt_string_def e0_def db0_def
        hexlify_e0)
  have t: "isoformat (today e0) \<le> ''2024-06-01''"
    by (simp add: isoformat_e0)
  have "get_active_announcements e0
      (db0\<lparr>announcements_collection :=
            [(BObjectId [101, 102, 103, 104, 105, 106, 107, 108, 109, 110, 111, 255],
              [(''message'', BString ''Exam Friday''),
               (''start_date'', BNull),
               (''expiration_date'', BString ''2024-06-01''),
               (''created_by'', BString ''jdoe''),
               (''created_at'', BString ''2024-05-15T09:00:00.000001'')])]\<rparr>) = []"
    by (simp add: get_active_announcements_def isoformat_e0 find_coll_def sort_desc_def
        doc_of_def field_value_def)
  with c t show ?thesis
    by simp
qed

end
